theory Spec2Isabelle
  imports Complex_Main "HOL-Library.Log_Nat"
begin

section \<open>Python values, errors and numeric built-ins\<close>

text \<open>
  The sources are Python modules that drive a solid-modelling kernel (cadquery on top of
  FreeCAD).  Exceptions are values of type \<open>error\<close>; a function that may raise returns
  \<open>error + 'a\<close> with \<open>Inl\<close> for the raised exception.  A float is a real number (every
  double is one).  In the point transform and the sampling of an edge the operations on
  floats are taken without their rounding error, with the \<open>ZeroDivisionError\<close> of a zero
  divisor written out.  In the vertex counts, where a ceiling turns a rounding error into
  a whole vertex, the float operations are a parameter of the model (\<open>float_arith\<close>).
  Where the two language generations differ in the formatting of class objects the
  interpreter is a parameter of type \<open>py_version\<close>.
\<close>

datatype py_version = Python2 | Python3

datatype error =
    TypeError string
  | ValueError string
  | OverflowError string
  | ZeroDivisionError
  | IndexError
  | AttributeError
  | NotImplementedError string

subsection \<open>Float operations of the vertex counts\<close>

text \<open>
  The three float operations of line 80: \<^verbatim>\<open>x / y\<close> on two floats (for a non-zero
  divisor), \<^verbatim>\<open>round(x, n)\<close>, and \<^verbatim>\<open>x * B\<close> of a float and an int.  \<^verbatim>\<open>ceil\<close> of a
  float and the conversion of its result to an int are exact.
\<close>

record float_arith =
  fdiv :: "real \<Rightarrow> real \<Rightarrow> real"
  fround :: "real \<Rightarrow> nat \<Rightarrow> real"
  fmul_int :: "real \<Rightarrow> int \<Rightarrow> real"

text \<open>
  What binary double precision with rounding to nearest gives on the operands that the
  vertex counts meet, with unit roundoff \<open>2^-53\<close>:
  \<^item> a quotient of \<open>0 \<le> a \<le> b\<close> is not negative and within \<open>2^-53\<close> of \<open>a / b\<close> (the
    quotient is at most 1);
  \<^item> \<^verbatim>\<open>round(x, 7)\<close> of \<open>0 \<le> x \<le> 2\<close> is the double nearest to a decimal \<open>k / 10^7\<close> that
    is nearest to \<open>x\<close> (whichever way a tie goes), so within relative error \<open>2^-53\<close> of it;
  \<^item> a product of \<open>0 \<le> r\<close> and an int \<open>0 \<le> B \<le> 2^53\<close> (which converts exactly) is not
    negative and within \<open>2^-53 * (r * B + 1)\<close> of \<open>r * B\<close> (relative error \<open>2^-53\<close>, or
    less than \<open>2^-53\<close> in absolute terms where the product underflows).
\<close>

definition double_accurate :: "float_arith \<Rightarrow> bool" where
  "double_accurate ar \<longleftrightarrow>
     (\<forall>a b. 0 \<le> a \<and> a \<le> b \<and> 0 < b \<longrightarrow>
        0 \<le> fdiv ar a b \<and> \<bar>fdiv ar a b - a / b\<bar> \<le> 1 / 2 ^ 53) \<and>
     (\<forall>x. 0 \<le> x \<and> x \<le> 2 \<longrightarrow>
        (\<exists>k::int. 0 \<le> k \<and> \<bar>of_int k / 10 ^ 7 - x\<bar> \<le> 1 / (2 * 10 ^ 7) \<and>
           \<bar>fround ar x 7 - of_int k / 10 ^ 7\<bar> \<le> (1 / 2 ^ 53) * (of_int k / 10 ^ 7))) \<and>
     (\<forall>r B. 0 \<le> r \<and> 0 \<le> B \<and> B \<le> 2 ^ 53 \<longrightarrow>
        0 \<le> fmul_int ar r B \<and>
        \<bar>fmul_int ar r B - r * of_int B\<bar> \<le> (1 / 2 ^ 53) * (r * of_int B + 1))"

text \<open>
  The arithmetic without rounding error, rounding decimals half up.  It is the instance
  on which the examples are evaluated; the examples are chosen so that double precision
  gives the same counts.
\<close>

definition exact_round :: "real \<Rightarrow> nat \<Rightarrow> real" where
  "exact_round x n = of_int \<lfloor>x * 10 ^ n + 1 / 2\<rfloor> / 10 ^ n"

definition exact_arith :: float_arith where
  "exact_arith =
     \<lparr>fdiv = (\<lambda>x y. x / y), fround = exact_round, fmul_int = (\<lambda>x B. x * of_int B)\<rparr>"

text \<open>Evaluating a list of results left to right; the first exception ends the evaluation.\<close>

fun collect :: "(error + 'a) list \<Rightarrow> error + 'a list" where
  "collect [] = Inr []"
| "collect (r # rs) =
     (case r of
        Inl e \<Rightarrow> Inl e
      | Inr a \<Rightarrow> (case collect rs of Inl e \<Rightarrow> Inl e | Inr as \<Rightarrow> Inr (a # as)))"

section \<open>The kernel's geometry as seen by \<^verbatim>\<open>cqparts/types/threads/base.py\<close>\<close>

text \<open>
  A kernel vector has three float components.  An edge is known to the module through its
  \<^verbatim>\<open>geomType()\<close> tag, its end points, its \<^verbatim>\<open>Length()\<close>, the parameter range of the
  wrapped edge, and the two evaluation functions \<^verbatim>\<open>edge.wrapped.Curve.value\<close> (by curve
  parameter) and \<^verbatim>\<open>edge.wrapped.valueAt\<close>.  A wire is known through \<^verbatim>\<open>Edges()\<close>,
  \<^verbatim>\<open>Length()\<close> and the z-extent of \<^verbatim>\<open>BoundingBox()\<close>.
\<close>

datatype vector = Vector (vx: real) (vy: real) (vz: real)

record edge =
  geomType :: string
  startPoint :: vector
  endPoint :: vector
  Length :: real
  ParameterRange :: "real \<times> real"
  Curve_value :: "real \<Rightarrow> vector"
  valueAt :: "real \<Rightarrow> vector"

record wire =
  Edges :: "edge list"
  wire_Length :: real
  bb_zmin :: real
  bb_zmax :: real

text \<open>
  The \<^verbatim>\<open>profile\<close> argument: a \<^verbatim>\<open>cadquery.Workplane\<close> whose \<^verbatim>\<open>val()\<close> is a wire or
  something else, or an object of another class (carrying its \<^verbatim>\<open>repr\<close>).
\<close>

datatype wp_val = Wire wire | NotWire

datatype profile_obj = Workplane wp_val | NotWorkplane string

text \<open>
  The \<^verbatim>\<open>min_vertices\<close> argument: an int, a list or a tuple (of ints), or an object of
  another class (carrying its \<^verbatim>\<open>repr\<close>).
\<close>

datatype min_vertices_obj =
    MV_int int
  | MV_list "int list"
  | MV_tuple "int list"
  | MV_other string

text \<open>
  The cross-section under construction is the sequence of sketch calls made on the
  \<^verbatim>\<open>cadquery.Workplane("XY")\<close> the function creates; the empty sequence is the fresh
  workplane, holding no geometry.
\<close>

datatype wp_op =
    MoveTo real real
  | ThreePointArc "real \<times> real" "real \<times> real"
  | LineTo real real
  | Spline "(real \<times> real) list"
  | Close

type_synonym workplane = "wp_op list"

section \<open>\<^verbatim>\<open>profile_to_cross_section\<close>\<close>

subsection \<open>Vertex count per edge (lines 73 to 89)\<close>

text \<open>
  With an int budget the list comprehension divides each edge length by the wire length
  (a float division, raising on a zero wire length as soon as there is an edge), rounds
  to 7 places, multiplies by the budget and takes the ceiling, all in the float
  arithmetic \<open>ar\<close>.  Otherwise the argument is used as it is after the length check.  The
  last case is never reached from \<open>profile_to_cross_section\<close>, whose \<^verbatim>\<open>isinstance\<close>
  guard comes first.
\<close>

definition vertices_count :: "float_arith \<Rightarrow> wire \<Rightarrow> min_vertices_obj \<Rightarrow> error + int list" where
  "vertices_count ar w min_vertices =
     (case min_vertices of
        MV_int B \<Rightarrow>
          if Edges w \<noteq> [] \<and> wire_Length w = 0 then Inl ZeroDivisionError
          else Inr (map (\<lambda>e. \<lceil>fmul_int ar (fround ar (fdiv ar (Length e) (wire_Length w)) 7) B\<rceil>)
                     (Edges w))
      | MV_list cs \<Rightarrow>
          if length cs \<noteq> length (Edges w) then Inl (ValueError []) else Inr cs
      | MV_tuple cs \<Rightarrow>
          if length cs \<noteq> length (Edges w) then Inl (ValueError []) else Inr cs
      | MV_other r \<Rightarrow>
          Inl (TypeError (''min_vertices '' @ r @ '' must be an int, list, or tuple'')))"

subsection \<open>Point transform (lines 92 to 116)\<close>

definition get_xz :: "vector \<Rightarrow> real \<times> real" where
  "get_xz vertex = (vx vertex, vz vertex)"

definition cart2polar :: "real \<Rightarrow> bool \<Rightarrow> real \<Rightarrow> real \<Rightarrow> error + (real \<times> real)" where
  "cart2polar lead lefthand x z =
     (if lead = 0 then Inl ZeroDivisionError
      else
        let radius = x;
            angle = (z / lead) * (2 * pi);
            angle = (if \<not> lefthand then - angle else angle)
        in Inr (radius, angle))"

definition transform :: "real \<Rightarrow> bool \<Rightarrow> vector \<Rightarrow> error + (real \<times> real)" where
  "transform lead lefthand vertex =
     (case cart2polar lead lefthand (fst (get_xz vertex)) (snd (get_xz vertex)) of
        Inl e \<Rightarrow> Inl e
      | Inr (radius, angle) \<Rightarrow> Inr (radius * cos angle, radius * sin angle))"

subsection \<open>Conversion of one edge (lines 119 to 149)\<close>

text \<open>
  \<^verbatim>\<open>apply_spline\<close> divides before it samples: a zero vertex count raises
  \<open>ZeroDivisionError\<close> with no point evaluated.  \<^verbatim>\<open>range(vert_count)\<close> is empty for a
  negative count.
\<close>

definition apply_spline :: "real \<Rightarrow> bool \<Rightarrow> workplane \<Rightarrow> edge \<Rightarrow> int \<Rightarrow> error + workplane" where
  "apply_spline lead lefthand wp e vert_count =
     (if vert_count = 0 then Inl ZeroDivisionError
      else
        let iter_dist =
              (if geomType e = ''CIRCLE'' then snd (ParameterRange e) / of_int vert_count
               else Length e / of_int vert_count)
        in (case collect
                   (map (\<lambda>j. transform lead lefthand (Curve_value e (of_nat (j + 1) * iter_dist)))
                      [0 ..< nat vert_count]) of
              Inl err \<Rightarrow> Inl err
            | Inr points \<Rightarrow> Inr (wp @ [Spline points])))"

definition apply_arc :: "real \<Rightarrow> bool \<Rightarrow> workplane \<Rightarrow> edge \<Rightarrow> error + workplane" where
  "apply_arc lead lefthand wp e =
     (case transform lead lefthand (valueAt e (Length e / 2)) of
        Inl err \<Rightarrow> Inl err
      | Inr point1 \<Rightarrow>
          (case transform lead lefthand (valueAt e (Length e)) of
             Inl err \<Rightarrow> Inl err
           | Inr point2 \<Rightarrow> Inr (wp @ [ThreePointArc point1 point2])))"

definition apply_radial_line :: "real \<Rightarrow> bool \<Rightarrow> workplane \<Rightarrow> edge \<Rightarrow> error + workplane" where
  "apply_radial_line lead lefthand wp e =
     (case transform lead lefthand (endPoint e) of
        Inl err \<Rightarrow> Inl err
      | Inr (px, py) \<Rightarrow> Inr (wp @ [LineTo px py]))"

subsection \<open>The loop over the edges (lines 156 to 166)\<close>

text \<open>
  The body of the loop for the edge at index \<open>i\<close>.  The subscript \<^verbatim>\<open>vertices_count[i]\<close>
  is evaluated in the last branch only, and raises \<open>IndexError\<close> out of range.
\<close>

definition convert_edge ::
  "real \<Rightarrow> bool \<Rightarrow> int list \<Rightarrow> workplane \<Rightarrow> nat \<Rightarrow> edge \<Rightarrow> error + workplane" where
  "convert_edge lead lefthand vc wp i e =
     (if geomType e = ''LINE'' \<and> vx (startPoint e) = vx (endPoint e) then
        apply_arc lead lefthand wp e
      else if geomType e = ''LINE'' \<and> vz (startPoint e) = vz (endPoint e) then
        apply_radial_line lead lefthand wp e
      else if i < length vc then apply_spline lead lefthand wp e (vc ! i)
      else Inl IndexError)"

text \<open>
  An exception leaves the loop at once; the model keeps the sketch calls made until
  then beside it.
\<close>

fun build_edges ::
  "real \<Rightarrow> bool \<Rightarrow> int list \<Rightarrow> workplane \<Rightarrow> nat \<Rightarrow> edge list \<Rightarrow> (error \<times> workplane) + workplane" where
  "build_edges lead lefthand vc wp i [] = Inr wp"
| "build_edges lead lefthand vc wp i (e # es) =
     (case convert_edge lead lefthand vc wp i e of
        Inl err \<Rightarrow> Inl (err, wp)
      | Inr wp' \<Rightarrow> build_edges lead lefthand vc wp' (Suc i) es)"

subsection \<open>The function (lines 59 to 168)\<close>

text \<open>
  \<^verbatim>\<open>str\<close> of the class \<^verbatim>\<open>cadquery.Workplane\<close>, which the first type error prints
  (the class is defined in module \<^verbatim>\<open>cadquery.cq\<close>).
\<close>

definition Workplane_cls :: string where
  "Workplane_cls = ''<class '' @ [CHR 0x27] @ ''cadquery.cq.Workplane'' @ [CHR 0x27] @ ''>''"

definition profile_lead :: "wire \<Rightarrow> real" where
  "profile_lead w = bb_zmax w - bb_zmin w"

definition profile_to_cross_section ::
  "float_arith \<Rightarrow> profile_obj \<Rightarrow> bool \<Rightarrow> min_vertices_obj \<Rightarrow> (error \<times> workplane) + workplane" where
  "profile_to_cross_section ar profile lefthand min_vertices =
     (case profile of
        NotWorkplane r \<Rightarrow>
          Inl (TypeError (''profile '' @ r @ '' must be a '' @ Workplane_cls @ '' instance''), [])
      | Workplane val \<Rightarrow>
          (case min_vertices of
             MV_other r \<Rightarrow>
               Inl (TypeError (''min_vertices '' @ r @ '' must be an int, list, or tuple''), [])
           | _ \<Rightarrow>
               (case val of
                  NotWire \<Rightarrow>
                    Inl (TypeError
                      ''a valid profile Wire type could not be found in the given Workplane'', [])
                | Wire w \<Rightarrow>
                    (let lead = profile_lead w; edges = Edges w
                     in (case vertices_count ar w min_vertices of
                           Inl err \<Rightarrow> Inl (err, [])
                         | Inr vc \<Rightarrow>
                             (case edges of
                                [] \<Rightarrow> Inl (IndexError, [])
                              | e0 # _ \<Rightarrow>
                                  (case transform lead lefthand (startPoint e0) of
                                     Inl err \<Rightarrow> Inl (err, [])
                                   | Inr (px, py) \<Rightarrow>
                                       (case build_edges lead lefthand vc [MoveTo px py] 0 edges of
                                          Inl r \<Rightarrow> Inl r
                                        | Inr wp \<Rightarrow> Inr (wp @ [Close])))))))))"

section \<open>Example profiles\<close>

text \<open>
  A straight edge between two points, with its length given (the kernel computes it);
  both evaluation functions walk from the start point by arc length.
\<close>

definition line_edge :: "vector \<Rightarrow> vector \<Rightarrow> real \<Rightarrow> edge" where
  "line_edge p q len =
     \<lparr>geomType = ''LINE'', startPoint = p, endPoint = q, Length = len,
      ParameterRange = (0, len),
      Curve_value = (\<lambda>u. Vector (vx p + u / len * (vx q - vx p)) (vy p + u / len * (vy q - vy p))
                                (vz p + u / len * (vz q - vz p))),
      valueAt = (\<lambda>u. Vector (vx p + u / len * (vx q - vx p)) (vy p + u / len * (vy q - vy p))
                                (vz p + u / len * (vz q - vz p)))\<rparr>"

text \<open>
  \<^verbatim>\<open>Workplane("XZ").moveTo(1, 0).lineTo(4, 4).lineTo(4, 8).lineTo(1, 8).wire()\<close>: a slanted
  edge of length 5, a vertical edge of length 4 and a horizontal edge of length 3; the
  lead is 8.
\<close>

definition example_wire :: wire where
  "example_wire =
     \<lparr>Edges = [line_edge (Vector 1 0 0) (Vector 4 0 4) 5,
               line_edge (Vector 4 0 4) (Vector 4 0 8) 4,
               line_edge (Vector 4 0 8) (Vector 1 0 8) 3],
      wire_Length = 12, bb_zmin = 0, bb_zmax = 8\<rparr>"

text \<open>\<^verbatim>\<open>Workplane("XZ").moveTo(1, 0).lineTo(2, 0).lineTo(2, 1).wire()\<close>: two unit edges.\<close>

definition corner_wire :: wire where
  "corner_wire =
     \<lparr>Edges = [line_edge (Vector 1 0 0) (Vector 2 0 0) 1,
               line_edge (Vector 2 0 0) (Vector 2 0 1) 1],
      wire_Length = 2, bb_zmin = 0, bb_zmax = 1\<rparr>"

text \<open>
  \<^verbatim>\<open>Workplane("XZ").moveTo(1, 0).lineTo(2, 0).lineTo(2, 1).lineTo(1, 1).wire()\<close>: three unit
  edges.
\<close>

definition square_wire :: wire where
  "square_wire =
     \<lparr>Edges = [line_edge (Vector 1 0 0) (Vector 2 0 0) 1,
               line_edge (Vector 2 0 0) (Vector 2 0 1) 1,
               line_edge (Vector 2 0 1) (Vector 1 0 1) 1],
      wire_Length = 3, bb_zmin = 0, bb_zmax = 1\<rparr>"

section \<open>The emission policy in the specification's words\<close>

text \<open>
  The point of the cross-section that a profile point \<open>(x, z)\<close> maps to: radius \<open>x\<close>, angle
  \<open>(z / lead) * 2 * pi\<close>, negated unless \<open>lefthand\<close> is set.
\<close>

definition polar_angle :: "real \<Rightarrow> bool \<Rightarrow> real \<Rightarrow> real" where
  "polar_angle lead lefthand z =
     (if lefthand then (z / lead) * (2 * pi) else - ((z / lead) * (2 * pi)))"

definition polar_point :: "real \<Rightarrow> bool \<Rightarrow> vector \<Rightarrow> real \<times> real" where
  "polar_point lead lefthand p =
     (vx p * cos (polar_angle lead lefthand (vz p)), vx p * sin (polar_angle lead lefthand (vz p)))"

text \<open>
  The kinds of profile edge.  They are tested in the order vertical, horizontal, other, so
  a line edge whose end points agree in both \<open>x\<close> and \<open>z\<close> (a line along the ignored
  y-axis) counts as vertical.
\<close>

definition vertical_line :: "edge \<Rightarrow> bool" where
  "vertical_line e \<longleftrightarrow> geomType e = ''LINE'' \<and> vx (startPoint e) = vx (endPoint e)"

definition horizontal_line :: "edge \<Rightarrow> bool" where
  "horizontal_line e \<longleftrightarrow> geomType e = ''LINE'' \<and> vz (startPoint e) = vz (endPoint e)"

definition spline_edge :: "edge \<Rightarrow> bool" where
  "spline_edge e \<longleftrightarrow> \<not> vertical_line e \<and> \<not> horizontal_line e"

text \<open>
  The sample parameters of a spline edge with \<open>c\<close> vertices: multiples of the parameter
  range's end over \<open>c\<close> for a circle, of the length over \<open>c\<close> otherwise.
\<close>

definition sample_params :: "edge \<Rightarrow> int \<Rightarrow> real list" where
  "sample_params e c =
     map (\<lambda>j. of_nat (j + 1) *
            ((if geomType e = ''CIRCLE'' then snd (ParameterRange e) else Length e) / of_int c))
       [0 ..< nat c]"

definition emitted_shape :: "real \<Rightarrow> bool \<Rightarrow> edge \<Rightarrow> int \<Rightarrow> wp_op" where
  "emitted_shape lead lefthand e c =
     (if vertical_line e then
        ThreePointArc (polar_point lead lefthand (valueAt e (Length e / 2)))
                      (polar_point lead lefthand (valueAt e (Length e)))
      else if horizontal_line e then
        LineTo (fst (polar_point lead lefthand (endPoint e)))
               (snd (polar_point lead lefthand (endPoint e)))
      else
        Spline (map (\<lambda>u. polar_point lead lefthand (Curve_value e u)) (sample_params e c)))"

text \<open>An edge of the spline kind paired with a vertex count of zero.\<close>

definition zero_spline :: "edge \<times> int \<Rightarrow> bool" where
  "zero_spline ec \<longleftrightarrow> spline_edge (fst ec) \<and> snd ec = 0"

section \<open>\<^verbatim>\<open>CoordSystem\<close> (\<^verbatim>\<open>cqparts/utils/geometry.py\<close>)\<close>

subsection \<open>Kernel vectors and matrices\<close>

text \<open>
  The kernel's vector arithmetic and its matrix type are not part of the repository; the
  definitions of this subsection are modelled from the spec, which asks of the kernel a
  ``4x4 affine matrix type supporting point multiplication'' and speaks of a ``4x4
  homogeneous affine transform matrix''.
\<close>

text \<open>Modelled from the spec: the sum of two kernel vectors (missing: \<^verbatim>\<open>FreeCAD.Vector\<close>).\<close>

definition vec_add :: "vector \<Rightarrow> vector \<Rightarrow> vector" where
  "vec_add a b = Vector (vx a + vx b) (vy a + vy b) (vz a + vz b)"

text \<open>
  Modelled from the spec: the difference of two kernel vectors, the \<^verbatim>\<open>-\<close> of
  \<^verbatim>\<open>from_transform\<close> (missing: \<^verbatim>\<open>FreeCAD.Vector\<close>).
\<close>

definition vec_sub :: "vector \<Rightarrow> vector \<Rightarrow> vector" where
  "vec_sub a b = Vector (vx a - vx b) (vy a - vy b) (vz a - vz b)"

text \<open>Modelled from the spec: a kernel vector times a scalar (missing: \<^verbatim>\<open>FreeCAD.Vector\<close>).\<close>

definition vec_scale :: "real \<Rightarrow> vector \<Rightarrow> vector" where
  "vec_scale c a = Vector (c * vx a) (c * vy a) (c * vz a)"

text \<open>Modelled from the spec: the scalar product (missing: \<^verbatim>\<open>FreeCAD.Vector\<close>).\<close>

definition dot :: "vector \<Rightarrow> vector \<Rightarrow> real" where
  "dot a b = vx a * vx b + vy a * vy b + vz a * vz b"

text \<open>Modelled from the spec: the vector product (missing: \<^verbatim>\<open>FreeCAD.Vector\<close>).\<close>

definition cross :: "vector \<Rightarrow> vector \<Rightarrow> vector" where
  "cross a b =
     Vector (vy a * vz b - vz a * vy b) (vz a * vx b - vx a * vz b) (vx a * vy b - vy a * vx b)"

text \<open>
  Modelled from the spec: ``the external kernel's normalization'' of a direction, to unit
  length; the zero vector stays as it is (missing: \<^verbatim>\<open>FreeCAD.Vector\<close>).
\<close>

definition normalized :: "vector \<Rightarrow> vector" where
  "normalized a = (if dot a a = 0 then a else vec_scale (1 / sqrt (dot a a)) a)"

text \<open>
  Modelled from the spec: the affine transform matrix (missing: \<^verbatim>\<open>FreeCAD.Matrix\<close>),
  kept as the three columns of its linear part and its translation column; the last row
  of the 4x4 matrix is \<open>0 0 0 1\<close>.
\<close>

datatype matrix = Matrix (col_x: vector) (col_y: vector) (col_z: vector) (col_t: vector)

text \<open>Modelled from the spec: the linear part of the matrix applied to a vector.\<close>

definition linear_part :: "matrix \<Rightarrow> vector \<Rightarrow> vector" where
  "linear_part m p =
     vec_add (vec_add (vec_scale (vx p) (col_x m)) (vec_scale (vy p) (col_y m)))
             (vec_scale (vz p) (col_z m))"

text \<open>
  Modelled from the spec: \<^verbatim>\<open>matrix.multiply(vector)\<close>, the ``point multiplication'' that
  applies the transform to a point (missing: \<^verbatim>\<open>FreeCAD.Matrix\<close>).
\<close>

definition multiply_vector :: "matrix \<Rightarrow> vector \<Rightarrow> vector" where
  "multiply_vector m p = vec_add (linear_part m p) (col_t m)"

text \<open>
  Modelled from the spec: \<^verbatim>\<open>matrix.multiply(matrix)\<close>, the product of two affine
  matrices (missing: \<^verbatim>\<open>FreeCAD.Matrix\<close>).
\<close>

definition multiply :: "matrix \<Rightarrow> matrix \<Rightarrow> matrix" where
  "multiply m n =
     Matrix (linear_part m (col_x n)) (linear_part m (col_y n)) (linear_part m (col_z n))
            (multiply_vector m (col_t n))"

subsection \<open>The frame\<close>

text \<open>
  \<^verbatim>\<open>CoordSystem\<close> inherits its constructor and its \<^verbatim>\<open>rG\<close> matrix from
  \<^verbatim>\<open>cadquery.Plane\<close>, which is not part of the repository.
\<close>

text \<open>
  Modelled from the spec: the data of a frame (missing: \<^verbatim>\<open>cadquery.Plane\<close>), ``origin
  (3-vector), x-axis direction (3-vector), and implied normal/z-axis direction
  (3-vector)''.
\<close>

record coord_system =
  origin :: vector
  xDir :: vector
  zDir :: vector

text \<open>
  Modelled from the spec: the constructor \<^verbatim>\<open>cls(origin=..., xDir=..., normal=...)\<close>
  (missing: \<^verbatim>\<open>cadquery.Plane.__init__\<close>), a ``direct copy'' of origin, x-direction and
  normal ``up to the external kernel's normalization''.
\<close>

definition CoordSystem :: "vector \<Rightarrow> vector \<Rightarrow> vector \<Rightarrow> coord_system" where
  "CoordSystem org x_dir normal =
     \<lparr>origin = org, xDir = normalized x_dir, zDir = normalized normal\<rparr>"

text \<open>
  Modelled from the spec: the y-axis of the ``right-handed orthonormal frame (origin,
  x-axis, z-axis/normal; y-axis implied)'' (missing: \<^verbatim>\<open>cadquery.Plane\<close>).
\<close>

definition yDir :: "coord_system \<Rightarrow> vector" where
  "yDir a = cross (zDir a) (xDir a)"

text \<open>
  Modelled from the spec: the property \<^verbatim>\<open>local_to_world_transform\<close> returns \<^verbatim>\<open>self.rG\<close>
  (missing: the matrix that \<^verbatim>\<open>cadquery.Plane\<close> computes), the ``forward (local to
  world)'' matrix of the frame as a ``rigid affine transform'': the axes are its columns
  and the origin is its translation.
\<close>

definition local_to_world_transform :: "coord_system \<Rightarrow> matrix" where
  "local_to_world_transform a = Matrix (xDir a) (yDir a) (zDir a) (origin a)"

text \<open>The invariant of a frame, and the identity frame.\<close>

definition orthonormal :: "coord_system \<Rightarrow> bool" where
  "orthonormal a \<longleftrightarrow>
     dot (xDir a) (xDir a) = 1 \<and> dot (zDir a) (zDir a) = 1 \<and> dot (xDir a) (zDir a) = 0"

definition identity_frame :: coord_system where
  "identity_frame = \<lparr>origin = Vector 0 0 0, xDir = Vector 1 0 0, zDir = Vector 0 0 1\<rparr>"

subsection \<open>\<^verbatim>\<open>from_transform\<close> (lines 84 to 165)\<close>

definition from_transform :: "matrix \<Rightarrow> coord_system" where
  "from_transform m =
     (let offset = Vector 0 0 0;
          x_vertex = Vector 1 0 0;
          z_vertex = Vector 0 0 1;
          offset = multiply_vector m offset;
          x_vertex = multiply_vector m x_vertex;
          z_vertex = multiply_vector m z_vertex;
          x_axis = vec_sub x_vertex offset;
          z_axis = vec_sub z_vertex offset
      in CoordSystem offset x_axis z_axis)"

subsection \<open>\<^verbatim>\<open>__add__\<close> (lines 187 to 207)\<close>

text \<open>
  The right operand is a \<^verbatim>\<open>CoordSystem\<close> or an object of another class, known by
  \<^verbatim>\<open>repr\<close> of its type.

  The message of the type error is built by \<^verbatim>\<open>str.format\<close> from replacement fields
  written \<^verbatim>\<open>{other_cls:r}\<close> and \<^verbatim>\<open>{self_cls:r}\<close>: the part after the colon is a format
  specification (a conversion would be \<^verbatim>\<open>!r\<close>), so each class object is formatted with
  the specification \<^verbatim>\<open>r\<close>.  A class has no format method of its own and falls back on
  \<^verbatim>\<open>object.__format__\<close>: CPython 2.7 formats \<^verbatim>\<open>str\<close> of the class with the
  specification, which is no format code of a string and raises a value error; CPython 3
  (3.7 and later, with this message) refuses a non-empty specification with a type error.
  Either exception leaves \<^verbatim>\<open>format\<close> before the \<^verbatim>\<open>TypeError\<close> of the source is built.
\<close>

datatype py_operand = CoordSystem_obj coord_system | Other_obj string

definition format_class_r :: "py_version \<Rightarrow> string \<Rightarrow> error + string" where
  "format_class_r v cls_repr =
     (case v of
        Python2 \<Rightarrow>
          Inl (ValueError (''Unknown format code '' @ [CHR 0x27] @ ''r'' @ [CHR 0x27] @
                 '' for object of type '' @ [CHR 0x27] @ ''str'' @ [CHR 0x27]))
      | Python3 \<Rightarrow> Inl (TypeError ''unsupported format string passed to type.__format__''))"

definition CoordSystem_add ::
  "py_version \<Rightarrow> string \<Rightarrow> coord_system \<Rightarrow> py_operand \<Rightarrow> error + coord_system" where
  "CoordSystem_add v self_cls self other =
     (case other of
        CoordSystem_obj b \<Rightarrow>
          (let self_transform = local_to_world_transform self;
               other_transform = local_to_world_transform b
           in Inr (from_transform (multiply self_transform other_transform)))
      | Other_obj other_cls \<Rightarrow>
          (case format_class_r v other_cls of
             Inl err \<Rightarrow> Inl err
           | Inr s1 \<Rightarrow>
               (case format_class_r v self_cls of
                  Inl err \<Rightarrow> Inl err
                | Inr s2 \<Rightarrow>
                    Inl (TypeError (''adding a '' @ s1 @ '' to a '' @ s2 @ '' is not supported'')))))"

text \<open>\<^verbatim>\<open>repr\<close> of the class \<^verbatim>\<open>CoordSystem\<close> of module \<^verbatim>\<open>cqparts.utils.geometry\<close>.\<close>

definition CoordSystem_cls :: string where
  "CoordSystem_cls =
     ''<class '' @ [CHR 0x27] @ ''cqparts.utils.geometry.CoordSystem'' @ [CHR 0x27] @ ''>''"

text \<open>
  Example frames: the identity moved to \<open>(1, 2, 3)\<close>, and a quarter turn about the z-axis.
\<close>

definition shifted_frame :: coord_system where
  "shifted_frame = \<lparr>origin = Vector 1 2 3, xDir = Vector 1 0 0, zDir = Vector 0 0 1\<rparr>"

definition turned_frame :: coord_system where
  "turned_frame = \<lparr>origin = Vector 0 0 0, xDir = Vector 0 1 0, zDir = Vector 0 0 1\<rparr>"

section \<open>\<^verbatim>\<open>helical_path\<close> and class \<^verbatim>\<open>Thread\<close>\<close>

subsection \<open>Kernel objects of the sweep\<close>

text \<open>
  The kernel's results are kept symbolic.  \<^verbatim>\<open>FreeCADPart.makeHelix(pitch, length, radius,
  angle, lefthand)\<close> is the term \<open>Helix\<close> of its arguments; the wire, the combination and
  the workplane that \<^verbatim>\<open>helical_path\<close> wraps around it add nothing to them.  A shape is
  the sweep of a cross-section along a path (with its \<^verbatim>\<open>isFrenet\<close> flag), a shape after
  \<^verbatim>\<open>sewShape()\<close>, or \<^verbatim>\<open>FreeCADPart.Solid\<close> of a shape.  The kernel's validity check is
  a parameter \<open>isValid\<close> of \<open>make\<close>.
\<close>

datatype helix =
  Helix (helix_pitch: real) (helix_length: real) (helix_radius: real) (helix_angle: real)
        (helix_lefthand: bool)

datatype shape =
    Swept workplane helix bool
  | Sewn shape
  | Solid shape

definition helical_path :: "real \<Rightarrow> real \<Rightarrow> real \<Rightarrow> real \<Rightarrow> bool \<Rightarrow> helix" where
  "helical_path pitch len radius angle lefthand = Helix pitch len radius angle lefthand"

text \<open>The path a shape was swept along, and its cross-section, through any repair.\<close>

fun sweep_path :: "shape \<Rightarrow> helix" where
  "sweep_path (Swept cs path fr) = path"
| "sweep_path (Sewn s) = sweep_path s"
| "sweep_path (Solid s) = sweep_path s"

fun sweep_cross_section :: "shape \<Rightarrow> workplane" where
  "sweep_cross_section (Swept cs path fr) = cs"
| "sweep_cross_section (Sewn s) = sweep_cross_section s"
| "sweep_cross_section (Solid s) = sweep_cross_section s"

subsection \<open>\<^verbatim>\<open>Thread.make\<close> (lines 224 to 246)\<close>

text \<open>
  The parameters of a thread as \<open>make\<close> reads them, after \<^verbatim>\<open>__init__\<close> has cast them to
  the types of the class defaults.
\<close>

record thread =
  t_length :: real
  t_pitch :: real
  t_start_count :: int
  t_radius :: real
  t_inner :: bool
  t_lefthand :: bool

text \<open>
  \<^verbatim>\<open>build_profile\<close> is the method a concrete class overrides: a function of the thread
  that returns a profile or raises; the one of the base class raises
  \<open>NotImplementedError\<close>.  \<open>make\<close> calls it twice, converts the second result and takes the
  bounding box of the first.  \<^verbatim>\<open>min_vertices\<close> keeps its default 20.  The last branch
  (a first result without a wire) stands for the attribute error of \<^verbatim>\<open>BoundingBox\<close>.
\<close>

definition base_build_profile :: "string \<Rightarrow> thread \<Rightarrow> error + profile_obj" where
  "base_build_profile cls self =
     Inl (NotImplementedError (''build_profile function not overridden in '' @ cls))"

definition make ::
  "float_arith \<Rightarrow> (shape \<Rightarrow> bool) \<Rightarrow> (thread \<Rightarrow> error + profile_obj) \<Rightarrow> thread \<Rightarrow> error + shape" where
  "make ar isValid build_profile self =
     (case build_profile self of
        Inl err \<Rightarrow> Inl err
      | Inr profile \<Rightarrow>
          (case build_profile self of
             Inl err \<Rightarrow> Inl err
           | Inr profile' \<Rightarrow>
               (case profile_to_cross_section ar profile' (t_lefthand self) (MV_int 20) of
                  Inl (err, wp) \<Rightarrow> Inl err
                | Inr cross_section \<Rightarrow>
                    (case profile of
                       Workplane (Wire w) \<Rightarrow>
                         (let lead = bb_zmax w - bb_zmin w;
                              path = helical_path lead (t_length self) 1 0 (t_lefthand self);
                              thread_shape = Swept cross_section path True
                          in if \<not> isValid thread_shape then Inr (Solid (Sewn thread_shape))
                             else Inr thread_shape)
                     | _ \<Rightarrow> Inl AttributeError))))"

subsection \<open>\<^verbatim>\<open>Thread.__init__\<close> (lines 190 to 208)\<close>















text \<open>Example threads: the defaults of the class, with a profile of the example wire.\<close>

definition default_thread :: thread where
  "default_thread =
     \<lparr>t_length = 10, t_pitch = 1, t_start_count = 1, t_radius = 3, t_inner = False,
      t_lefthand = False\<rparr>"

definition example_build_profile :: "thread \<Rightarrow> error + profile_obj" where
  "example_build_profile self = Inr (Workplane (Wire example_wire))"

text \<open>The cross-section of the example wire with the default budget of 20 vertices.\<close>

definition example_cross_section :: workplane where
  "example_cross_section =
     [MoveTo (fst (polar_point 8 False (Vector 1 0 0))) (snd (polar_point 8 False (Vector 1 0 0))),
      emitted_shape 8 False (line_edge (Vector 1 0 0) (Vector 4 0 4) 5) 9,
      emitted_shape 8 False (line_edge (Vector 4 0 4) (Vector 4 0 8) 4) 7,
      emitted_shape 8 False (line_edge (Vector 4 0 8) (Vector 1 0 8) 3) 5,
      Close]"


section \<open>Vertex-count resolution\<close>

subsection \<open>The exact arithmetic meets the accuracy of double precision\<close>

lemma exact_round_close: "\<bar>exact_round x 7 - x\<bar> \<le> 1 / (2 * 10 ^ 7)"
proof -
  have "of_int \<lfloor>x * 10 ^ 7 + 1 / 2\<rfloor> \<le> x * 10 ^ 7 + 1 / 2"
       "x * 10 ^ 7 + 1 / 2 < of_int \<lfloor>x * 10 ^ 7 + 1 / 2\<rfloor> + 1" by linarith+
  then have "\<bar>of_int \<lfloor>x * 10 ^ 7 + 1 / 2\<rfloor> - x * 10 ^ 7\<bar> \<le> 1 / 2" by linarith
  then show ?thesis by (simp add: exact_round_def abs_le_iff field_simps)
qed

lemma double_accurate_exact: "double_accurate exact_arith"
proof -
  have "\<exists>k::int. 0 \<le> k \<and> \<bar>of_int k / 10 ^ 7 - x\<bar> \<le> 1 / (2 * 10 ^ 7) \<and>
           \<bar>exact_round x 7 - of_int k / 10 ^ 7\<bar> \<le> (1 / 2 ^ 53) * (of_int k / 10 ^ 7)"
    if "0 \<le> x" for x :: real
  proof (intro exI conjI)
    show "0 \<le> \<lfloor>x * 10 ^ 7 + 1 / 2\<rfloor>" using that by simp
    show "\<bar>of_int \<lfloor>x * 10 ^ 7 + 1 / 2\<rfloor> / 10 ^ 7 - x\<bar> \<le> 1 / (2 * 10 ^ 7)"
      using exact_round_close [of x] by (simp only: exact_round_def)
    have "0 \<le> real_of_int \<lfloor>x * 10 ^ 7 + 1 / 2\<rfloor>" using that by simp
    then show "\<bar>exact_round x 7 - of_int \<lfloor>x * 10 ^ 7 + 1 / 2\<rfloor> / 10 ^ 7\<bar>
          \<le> (1 / 2 ^ 53) * (of_int \<lfloor>x * 10 ^ 7 + 1 / 2\<rfloor> / 10 ^ 7)"
      by (simp add: exact_round_def)
  qed
  then show ?thesis
    by (simp add: double_accurate_def exact_arith_def)
qed

subsection \<open>The error of one product, and of the sum\<close>

lemma member_le_sum_list_real:
  fixes xs :: "real list"
  assumes "x \<in> set xs" "\<forall>y \<in> set xs. 0 \<le> y"
  shows "x \<le> sum_list xs"
  using assms
proof (induction xs)
  case Nil
  then show ?case by simp
next
  case (Cons a xs)
  have "0 \<le> sum_list xs" using Cons.prems(2) by (simp add: sum_list_nonneg)
  moreover have "0 \<le> a" using Cons.prems(2) by simp
  ultimately show ?case using Cons by auto
qed

lemma edge_product_close:
  assumes acc: "double_accurate ar"
    and l: "0 \<le> l" "l \<le> L" "0 < L"
    and B: "0 \<le> B" "B \<le> 10 ^ 7"
  shows "0 \<le> fmul_int ar (fround ar (fdiv ar l L) 7) B \<and>
         \<bar>fmul_int ar (fround ar (fdiv ar l L) 7) B - l / L * of_int B\<bar>
           \<le> of_int B / (2 * 10 ^ 7) + (1 / 2 ^ 53) * (5 * of_int B + 1)"
proof -
  define u :: real where "u = 1 / 2 ^ 53"
  have u: "0 \<le> u" "u \<le> 1 / 8" by (simp_all add: u_def)
  define q where "q = l / L"
  define d where "d = fdiv ar l L"
  define r where "r = fround ar d 7"
  define p where "p = fmul_int ar r B"
  define b :: real where "b = of_int B"
  have b: "0 \<le> b" using B by (simp add: b_def)
  have q: "0 \<le> q" "q \<le> 1" using l by (simp_all add: q_def)
  from acc l have d: "0 \<le> d" "\<bar>d - q\<bar> \<le> u"
    by (simp_all add: double_accurate_def d_def q_def u_def)
  then have d2: "d \<le> 2" using q u by linarith
  from acc d(1) d2 obtain k :: int where k: "0 \<le> k"
    "\<bar>of_int k / 10 ^ 7 - d\<bar> \<le> 1 / (2 * 10 ^ 7)"
    "\<bar>r - of_int k / 10 ^ 7\<bar> \<le> u * (of_int k / 10 ^ 7)"
    unfolding double_accurate_def r_def u_def by blast
  define D :: real where "D = of_int k / 10 ^ 7"
  have D0: "0 \<le> D" using k(1) by (simp add: D_def)
  have Dd: "\<bar>D - d\<bar> \<le> 1 / 20000000" using k(2) by (simp add: D_def)
  have rD: "\<bar>r - D\<bar> \<le> u * D" using k(3) by (simp add: D_def)
  have D2: "D \<le> 2" using Dd d(2) q u by linarith
  have uD: "u * D \<le> u * 2" using D2 u(1) by (rule mult_left_mono)
  have uD0: "0 \<le> u * D" using u(1) D0 by simp
  have r0: "0 \<le> r"
  proof -
    have "u * D \<le> 1 * D" using u D0 by (intro mult_right_mono) linarith+
    with rD show ?thesis by linarith
  qed
  have r2: "r \<le> 2" using rD uD Dd d(2) q u by linarith
  have rq: "\<bar>r - q\<bar> \<le> 3 * u + 1 / 20000000" using rD uD Dd d(2) by linarith
  have B53: "B \<le> 2 ^ 53" using B(2) by simp
  from acc r0 B(1) B53 have p: "0 \<le> p" "\<bar>p - r * b\<bar> \<le> u * (r * b + 1)"
    by (simp_all add: double_accurate_def p_def u_def b_def)
  have rb: "r * b \<le> 2 * b" using r2 b by (rule mult_right_mono)
  have "u * (r * b + 1) \<le> u * (2 * b + 1)" using rb u(1) by (intro mult_left_mono) linarith+
  with p(2) have pr: "\<bar>p - r * b\<bar> \<le> u * (2 * b + 1)" by linarith
  have "\<bar>r * b - q * b\<bar> = \<bar>r - q\<bar> * b" using b by (simp add: abs_mult left_diff_distrib [symmetric])
  also have "\<dots> \<le> (3 * u + 1 / 20000000) * b" using rq b by (rule mult_right_mono)
  finally have rqb: "\<bar>r * b - q * b\<bar> \<le> (3 * u + 1 / 20000000) * b" .
  have "\<bar>p - q * b\<bar> \<le> u * (2 * b + 1) + (3 * u + 1 / 20000000) * b" using pr rqb by linarith
  also have "\<dots> = b / 20000000 + u * (5 * b + 1)" by (simp add: algebra_simps)
  finally have "\<bar>p - q * b\<bar> \<le> b / 20000000 + u * (5 * b + 1)" .
  with p(1) show ?thesis
    by (simp add: p_def r_def d_def q_def b_def u_def)
qed

lemma sum_list_ceiling_lower: "(\<Sum>a\<leftarrow>as. g a) \<le> real_of_int (\<Sum>a\<leftarrow>as. \<lceil>g a\<rceil>)"
proof (induction as)
  case Nil
  then show ?case by simp
next
  case (Cons a as)
  have "g a \<le> of_int \<lceil>g a\<rceil>" by linarith
  from this Cons.IH show ?case
    unfolding list.map sum_list.Cons of_int_add by (rule add_mono)
qed

lemma sum_list_ceiling_upper:
  "as \<noteq> [] \<Longrightarrow> real_of_int (\<Sum>a\<leftarrow>as. \<lceil>g a\<rceil>) < (\<Sum>a\<leftarrow>as. g a) + real (length as)"
proof (induction as)
  case Nil
  then show ?case by simp
next
  case (Cons a as)
  have a: "of_int \<lceil>g a\<rceil> < g a + 1" by linarith
  show ?case
  proof (cases "as = []")
    case True
    with a show ?thesis by simp
  next
    case False
    with Cons have "real_of_int (\<Sum>a\<leftarrow>as. \<lceil>g a\<rceil>) < (\<Sum>a\<leftarrow>as. g a) + real (length as)" by simp
    with a show ?thesis by simp
  qed
qed

lemma sum_list_ratio: "(\<Sum>e\<leftarrow>es. f e / L) = (\<Sum>e\<leftarrow>es. f e) / (L::real)"
  by (induction es) (simp_all add: add_divide_distrib)

lemma sum_list_mult_right: "(\<Sum>e\<leftarrow>es. f e * (c::real)) = (\<Sum>e\<leftarrow>es. f e) * c"
  by (induction es) (simp_all add: algebra_simps)

lemma sum_list_abs_diff:
  fixes f g :: "'a \<Rightarrow> real"
  assumes "\<forall>x \<in> set xs. \<bar>f x - g x\<bar> \<le> c"
  shows "\<bar>(\<Sum>x\<leftarrow>xs. f x) - (\<Sum>x\<leftarrow>xs. g x)\<bar> \<le> real (length xs) * c"
  using assms
proof (induction xs)
  case Nil
  then show ?case by simp
next
  case (Cons x xs)
  then have 1: "\<bar>f x - g x\<bar> \<le> c"
    and 2: "\<bar>(\<Sum>x\<leftarrow>xs. f x) - (\<Sum>x\<leftarrow>xs. g x)\<bar> \<le> real (length xs) * c" by simp_all
  have "\<bar>(f x + (\<Sum>x\<leftarrow>xs. f x)) - (g x + (\<Sum>x\<leftarrow>xs. g x))\<bar> \<le> c + real (length xs) * c"
    using 1 2 by linarith
  then show ?case by (simp add: algebra_simps)
qed

text \<open>
  C1 (as amended).  In a float arithmetic with the accuracy of double precision, for a
  wire of at most \<open>10^7\<close> edges whose lengths are not negative and sum to a positive wire
  length, and an int budget \<open>B\<close> with \<open>0 \<le> B\<close> and \<open>n * B \<le> 10^7\<close> for the \<open>n\<close> edges: the
  resolved count of every edge is the ceiling of the float value of
  \<^verbatim>\<open>round(L_i / L, 7) * B\<close>, every count is at least 0, and the sum of the counts
  differs from \<open>B\<close> by at most \<open>n\<close>.
\<close>

theorem vertices_count_budget:
  assumes acc: "double_accurate ar"
    and len: "wire_Length w = sum_list (map Length (Edges w))"
    and pos: "0 < wire_Length w"
    and nonneg: "\<forall>e \<in> set (Edges w). 0 \<le> Length e"
    and B0: "0 \<le> B"
    and small: "int (length (Edges w)) * B \<le> 10000000"
    and edges: "length (Edges w) \<le> 10000000"
  shows "vertices_count ar w (MV_int B) =
           Inr (map (\<lambda>e. \<lceil>fmul_int ar (fround ar (fdiv ar (Length e) (wire_Length w)) 7) B\<rceil>)
                  (Edges w)) \<and>
         (\<forall>e \<in> set (Edges w).
            0 \<le> \<lceil>fmul_int ar (fround ar (fdiv ar (Length e) (wire_Length w)) 7) B\<rceil>) \<and>
         \<bar>(\<Sum>e\<leftarrow>Edges w. \<lceil>fmul_int ar (fround ar (fdiv ar (Length e) (wire_Length w)) 7) B\<rceil>) - B\<bar>
           \<le> int (length (Edges w))"
proof -
  let ?L = "wire_Length w" and ?es = "Edges w"
  let ?p = "\<lambda>e. fmul_int ar (fround ar (fdiv ar (Length e) ?L) 7) B"
  let ?n = "length ?es"
  let ?S = "\<Sum>e\<leftarrow>?es. \<lceil>?p e\<rceil>"
  define c :: real where "c = of_int B / (2 * 10 ^ 7) + (1 / 2 ^ 53) * (5 * of_int B + 1)"
  have eq: "vertices_count ar w (MV_int B) = Inr (map (\<lambda>e. \<lceil>?p e\<rceil>) ?es)"
    using pos by (simp add: vertices_count_def)
  have ne: "?es \<noteq> []" using len pos by auto
  then have n1: "1 \<le> ?n" by (cases ?es) simp_all
  have "1 * B \<le> int ?n * B" using n1 B0 by (intro mult_right_mono) simp_all
  with small have B7: "B \<le> 10 ^ 7" by simp
  have edge: "0 \<le> ?p e \<and> \<bar>?p e - Length e / ?L * of_int B\<bar> \<le> c" if e: "e \<in> set ?es" for e
  proof -
    from e nonneg have l0: "0 \<le> Length e" by simp
    have "Length e \<in> set (map Length ?es)" using e by simp
    moreover have "\<forall>y \<in> set (map Length ?es). 0 \<le> y" using nonneg by simp
    ultimately have "Length e \<le> sum_list (map Length ?es)" by (rule member_le_sum_list_real)
    then have lL: "Length e \<le> ?L" by (simp only: len)
    show ?thesis unfolding c_def using acc l0 lL pos B0 B7 by (rule edge_product_close)
  qed
  have nn: "\<forall>e \<in> set ?es. 0 \<le> \<lceil>?p e\<rceil>"
  proof
    fix e assume "e \<in> set ?es"
    with edge have "0 \<le> ?p e" by blast
    then show "0 \<le> \<lceil>?p e\<rceil>" by linarith
  qed
  have "\<forall>e \<in> set ?es. \<bar>?p e - Length e / ?L * of_int B\<bar> \<le> c" using edge by blast
  then have "\<bar>(\<Sum>e\<leftarrow>?es. ?p e) - (\<Sum>e\<leftarrow>?es. Length e / ?L * of_int B)\<bar> \<le> real ?n * c"
    by (rule sum_list_abs_diff)
  moreover have "(\<Sum>e\<leftarrow>?es. Length e / ?L * of_int B) = real_of_int B"
    using pos len by (simp add: sum_list_mult_right sum_list_ratio)
  ultimately have s: "\<bar>(\<Sum>e\<leftarrow>?es. ?p e) - real_of_int B\<bar> \<le> real ?n * c" by simp
  define x :: real where "x = real ?n * real_of_int B"
  have x: "x \<le> 10000000"
  proof -
    have "real_of_int (int ?n * B) \<le> real_of_int 10000000" using small by (simp only: of_int_le_iff)
    then show ?thesis by (simp add: x_def)
  qed
  define y :: real where "y = real ?n"
  have "real ?n \<le> real 10000000" using edges by (simp only: of_nat_le_iff)
  then have y: "y \<le> 10000000" by (simp add: y_def)
  have "real ?n * c = x / 20000000 + (5 * x + y) / 9007199254740992"
    by (simp add: c_def x_def y_def algebra_simps)
  also have "\<dots> < 1"
  proof -
    have a: "x / 20000000 \<le> 1 / 2" using x by simp
    have "5 * x + y \<le> 60000000" using x y by linarith
    then have "(5 * x + y) / 9007199254740992 \<le> 60000000 / 9007199254740992"
      by (rule divide_right_mono) simp
    also have "\<dots> < 1 / 2" by simp
    finally show ?thesis using a by linarith
  qed
  finally have nc: "real ?n * c < 1" .
  have c1: "(\<Sum>e\<leftarrow>?es. ?p e) \<le> real_of_int ?S" by (rule sum_list_ceiling_lower)
  have c2: "real_of_int ?S < (\<Sum>e\<leftarrow>?es. ?p e) + real ?n"
    using ne by (rule sum_list_ceiling_upper)
  have up: "real_of_int (?S - B) < real_of_int (int ?n + 1)"
    using s nc c2 by (simp add: abs_le_iff)
  have lo: "real_of_int (- 1) < real_of_int (?S - B)"
    using s nc c1 by (simp add: abs_le_iff)
  have "?S - B < int ?n + 1" using up by (simp only: of_int_less_iff)
  moreover have "- 1 < ?S - B" using lo by (simp only: of_int_less_iff)
  ultimately have "\<bar>?S - B\<bar> \<le> int ?n" by linarith
  with eq nn show ?thesis by blast
qed

theorem vertices_count_budget_witness:
  "vertices_count exact_arith example_wire (MV_int 20) = Inr [9, 7, 5] \<and>
   \<bar>(9 + 7 + 5) - (20::int)\<bar> \<le> 3"
  using vertices_count_budget [OF double_accurate_exact, of example_wire 20]
  by (simp add: example_wire_def line_edge_def exact_arith_def exact_round_def)

text \<open>
  The claim as stated fails for a negative budget (two unit edges, budget \<open>-2\<close>: both
  ratios are \<open>0.5\<close>, every float operation is exact and both counts are \<open>-1\<close>) and for a
  large one (three unit edges, budget \<open>3 * 10^8\<close>: each ratio rounds to \<open>0.3333333\<close> and
  the counts sum to \<open>299999970\<close>, 30 short of the budget).
\<close>

theorem vertices_count_budget_counterexample:
  "vertices_count exact_arith corner_wire (MV_int (- 2)) = Inr [- 1, - 1] \<and>
   \<not> (0::int) \<le> - 1 \<and>
   vertices_count exact_arith square_wire (MV_int 300000000) = Inr [99999990, 99999990, 99999990] \<and>
   \<not> \<bar>(99999990 + 99999990 + 99999990) - (300000000::int)\<bar> \<le> 3"
  by (simp add: vertices_count_def corner_wire_def square_wire_def line_edge_def exact_arith_def
        exact_round_def ceiling_minus)

section \<open>The cross-section of a profile\<close>

subsection \<open>The transform, one edge, the loop\<close>

lemma transform_polar_point:
  "lead \<noteq> 0 \<Longrightarrow> transform lead lefthand p = Inr (polar_point lead lefthand p)"
  by (simp add: transform_def cart2polar_def get_xz_def polar_point_def polar_angle_def Let_def)

lemma collect_map_Inr: "collect (map (\<lambda>x. Inr (f x)) xs) = Inr (map f xs)"
  by (induction xs) simp_all

lemma apply_spline_zero: "apply_spline lead lefthand wp e 0 = Inl ZeroDivisionError"
  by (simp add: apply_spline_def)

lemma apply_spline_nonzero:
  assumes "lead \<noteq> 0" "c \<noteq> 0"
  shows "apply_spline lead lefthand wp e c =
           Inr (wp @ [Spline (map (\<lambda>u. polar_point lead lefthand (Curve_value e u)) (sample_params e c))])"
  using assms
  by (simp add: apply_spline_def transform_polar_point collect_map_Inr sample_params_def
        Let_def comp_def)

lemma convert_edge_char:
  assumes "lead \<noteq> 0" "i < length vc"
  shows "convert_edge lead lefthand vc wp i e =
           (if spline_edge e \<and> vc ! i = 0 then Inl ZeroDivisionError
            else Inr (wp @ [emitted_shape lead lefthand e (vc ! i)]))"
  using assms
  by (auto simp: convert_edge_def apply_arc_def apply_radial_line_def transform_polar_point
        apply_spline_zero apply_spline_nonzero emitted_shape_def spline_edge_def
        vertical_line_def horizontal_line_def split: prod.splits)

lemma build_edges_char:
  assumes "lead \<noteq> 0" "i + length es \<le> length vc"
  shows "build_edges lead lefthand vc wp i es =
           (let ok = takeWhile (\<lambda>ec. \<not> zero_spline ec) (zip es (drop i vc));
                shapes = map (\<lambda>ec. emitted_shape lead lefthand (fst ec) (snd ec)) ok
            in if length ok = length es then Inr (wp @ shapes)
               else Inl (ZeroDivisionError, wp @ shapes))"
  using assms
proof (induction es arbitrary: wp i)
  case Nil
  then show ?case by simp
next
  case (Cons e es)
  then have i: "i < length vc" and rest: "Suc i + length es \<le> length vc" by simp_all
  have d: "drop i vc = vc ! i # drop (Suc i) vc" using i by (simp add: Cons_nth_drop_Suc)
  show ?case
  proof (cases "spline_edge e \<and> vc ! i = 0")
    case True
    then show ?thesis
      using Cons.prems(1) i by (simp add: convert_edge_char d zero_spline_def)
  next
    case False
    then show ?thesis
      using Cons.prems(1) i Cons.IH[OF Cons.prems(1) rest]
      by (simp add: convert_edge_char d zero_spline_def Let_def)
  qed
qed

lemma vertices_count_length:
  "vertices_count ar w mv = Inr vc \<Longrightarrow> length vc = length (Edges w)"
  by (cases mv) (auto simp: vertices_count_def split: if_splits)

lemma vertices_count_not_other:
  "vertices_count ar w mv = Inr vc \<Longrightarrow> mv \<noteq> MV_other r"
  by (auto simp: vertices_count_def)

text \<open>The function on a validated profile with an edge and a non-zero lead.\<close>

lemma profile_to_cross_section_char:
  assumes vc: "vertices_count ar w mv = Inr vc"
    and edges: "Edges w = e0 # es"
    and lead: "profile_lead w \<noteq> 0"
  shows "profile_to_cross_section ar (Workplane (Wire w)) lefthand mv =
           (let ok = takeWhile (\<lambda>ec. \<not> zero_spline ec) (zip (Edges w) vc);
                start = polar_point (profile_lead w) lefthand (startPoint e0);
                shapes = map (\<lambda>ec. emitted_shape (profile_lead w) lefthand (fst ec) (snd ec)) ok
            in if length ok = length (Edges w)
               then Inr (MoveTo (fst start) (snd start) # shapes @ [Close])
               else Inl (ZeroDivisionError, MoveTo (fst start) (snd start) # shapes))"
proof -
  have len: "0 + length (Edges w) \<le> length vc"
    using vertices_count_length[OF vc] by simp
  have tr: "transform (profile_lead w) lefthand (startPoint e0) =
              Inr (polar_point (profile_lead w) lefthand (startPoint e0))"
    using lead by (rule transform_polar_point)
  have be: "build_edges (profile_lead w) lefthand vc wp 0 (e0 # es) =
           (let ok = takeWhile (\<lambda>ec. \<not> zero_spline ec) (zip (e0 # es) vc);
                shapes = map (\<lambda>ec. emitted_shape (profile_lead w) lefthand (fst ec) (snd ec)) ok
            in if length ok = length (e0 # es) then Inr (wp @ shapes)
               else Inl (ZeroDivisionError, wp @ shapes))" for wp
    using build_edges_char[OF lead len, of lefthand wp] by (simp only: edges drop_0)
  show ?thesis
  proof (cases mv)
    case (MV_other r)
    with vc show ?thesis by (simp add: vertices_count_def)
  next
    case (MV_int B)
    with vc edges show ?thesis
      by (simp add: profile_to_cross_section_def tr be Let_def split: prod.splits del: build_edges.simps)
  next
    case (MV_list cs)
    with vc edges show ?thesis
      by (simp add: profile_to_cross_section_def tr be Let_def split: prod.splits del: build_edges.simps)
  next
    case (MV_tuple cs)
    with vc edges show ?thesis
      by (simp add: profile_to_cross_section_def tr be Let_def split: prod.splits del: build_edges.simps)
  qed
qed

subsection \<open>Example evaluations\<close>

lemma example_counts: "vertices_count exact_arith example_wire (MV_int 20) = Inr [9, 7, 5]"
  by (simp add: vertices_count_def example_wire_def line_edge_def exact_arith_def
        exact_round_def)

lemma example_kinds:
  "spline_edge (line_edge (Vector 1 0 0) (Vector 4 0 4) 5)"
  "vertical_line (line_edge (Vector 4 0 4) (Vector 4 0 8) 4)"
  "\<not> vertical_line (line_edge (Vector 4 0 8) (Vector 1 0 8) 3)"
  "horizontal_line (line_edge (Vector 4 0 8) (Vector 1 0 8) 3)"
  by (simp_all add: spline_edge_def vertical_line_def horizontal_line_def line_edge_def)

subsection \<open>Emission policy\<close>

text \<open>
  C2.  On a profile that passes validation, has at least one edge and a non-zero lead, and
  whose edges of the spline kind have a positive vertex count, the function returns the
  move to the transformed start point, then exactly one shape per edge in order, then the
  close.  The shape of a line edge with constant x is the three-point arc through the
  transformed midpoint and end point; of a line edge with constant z (and varying x: the
  vertical test comes first) the straight line to the transformed end point; of every
  other edge the spline through \<open>vertex_count_i\<close> transformed points, sampled at
  multiples of the parameter range's end over the count for a circle and of the length
  over the count otherwise.
\<close>

theorem edge_emission_policy:
  assumes vc: "vertices_count ar w min_vertices = Inr vc"
    and edges: "Edges w = e0 # es"
    and lead: "profile_lead w \<noteq> 0"
    and counts: "\<forall>ec \<in> set (zip (Edges w) vc). spline_edge (fst ec) \<longrightarrow> 0 < snd ec"
  shows "profile_to_cross_section ar (Workplane (Wire w)) lefthand min_vertices =
           Inr (MoveTo (fst (polar_point (profile_lead w) lefthand (startPoint e0)))
                       (snd (polar_point (profile_lead w) lefthand (startPoint e0)))
                # map2 (emitted_shape (profile_lead w) lefthand) (Edges w) vc @ [Close]) \<and>
         length (map2 (emitted_shape (profile_lead w) lefthand) (Edges w) vc) = length (Edges w) \<and>
         (\<forall>ec \<in> set (zip (Edges w) vc).
            emitted_shape (profile_lead w) lefthand (fst ec) (snd ec) =
              (if vertical_line (fst ec) then
                 ThreePointArc
                   (polar_point (profile_lead w) lefthand (valueAt (fst ec) (Length (fst ec) / 2)))
                   (polar_point (profile_lead w) lefthand (valueAt (fst ec) (Length (fst ec))))
               else if horizontal_line (fst ec) then
                 LineTo (fst (polar_point (profile_lead w) lefthand (endPoint (fst ec))))
                        (snd (polar_point (profile_lead w) lefthand (endPoint (fst ec))))
               else
                 Spline (map (\<lambda>u. polar_point (profile_lead w) lefthand (Curve_value (fst ec) u))
                          (sample_params (fst ec) (snd ec)))) \<and>
            (spline_edge (fst ec) \<longrightarrow> int (length (sample_params (fst ec) (snd ec))) = snd ec))"
proof -
  have len: "length vc = length (Edges w)" using vc by (rule vertices_count_length)
  have "\<forall>ec \<in> set (zip (Edges w) vc). \<not> zero_spline ec"
    using counts by (auto simp: zero_spline_def)
  then have tw: "takeWhile (\<lambda>ec. \<not> zero_spline ec) (zip (Edges w) vc) = zip (Edges w) vc"
    by (simp add: takeWhile_eq_all_conv)
  have m: "map (\<lambda>ec. emitted_shape (profile_lead w) lefthand (fst ec) (snd ec)) (zip (Edges w) vc) =
           map2 (emitted_shape (profile_lead w) lefthand) (Edges w) vc"
    by (simp add: case_prod_beta)
  have 1: "profile_to_cross_section ar (Workplane (Wire w)) lefthand min_vertices =
           Inr (MoveTo (fst (polar_point (profile_lead w) lefthand (startPoint e0)))
                       (snd (polar_point (profile_lead w) lefthand (startPoint e0)))
                # map2 (emitted_shape (profile_lead w) lefthand) (Edges w) vc @ [Close])"
    unfolding profile_to_cross_section_char[OF vc edges lead] tw Let_def m
    using len by simp
  have 2: "length (map2 (emitted_shape (profile_lead w) lefthand) (Edges w) vc) = length (Edges w)"
    using len by simp
  have 3: "int (length (sample_params (fst ec) (snd ec))) = snd ec"
    if "ec \<in> set (zip (Edges w) vc)" "spline_edge (fst ec)" for ec
    using that counts by (auto simp: sample_params_def)
  show ?thesis
    using 1 2 3 by (simp add: emitted_shape_def)
qed

theorem edge_emission_policy_witness:
  "profile_to_cross_section exact_arith (Workplane (Wire example_wire)) False (MV_int 20) =
     Inr [MoveTo (fst (polar_point 8 False (Vector 1 0 0))) (snd (polar_point 8 False (Vector 1 0 0))),
          emitted_shape 8 False (line_edge (Vector 1 0 0) (Vector 4 0 4) 5) 9,
          emitted_shape 8 False (line_edge (Vector 4 0 4) (Vector 4 0 8) 4) 7,
          emitted_shape 8 False (line_edge (Vector 4 0 8) (Vector 1 0 8) 3) 5,
          Close] \<and>
   length (sample_params (line_edge (Vector 1 0 0) (Vector 4 0 4) 5) 9) = 9"
proof -
  have e: "Edges example_wire =
             line_edge (Vector 1 0 0) (Vector 4 0 4) 5 #
             [line_edge (Vector 4 0 4) (Vector 4 0 8) 4, line_edge (Vector 4 0 8) (Vector 1 0 8) 3]"
    by (simp add: example_wire_def)
  have l: "profile_lead example_wire \<noteq> 0" by (simp add: profile_lead_def example_wire_def)
  have c: "\<forall>ec \<in> set (zip (Edges example_wire) [9, 7, 5 :: int]). spline_edge (fst ec) \<longrightarrow> 0 < snd ec"
    by (simp add: e)
  have s: "startPoint (line_edge (Vector 1 0 0) (Vector 4 0 4) 5) = Vector 1 0 0"
    by (simp add: line_edge_def)
  have l8: "profile_lead example_wire = 8" by (simp add: profile_lead_def example_wire_def)
  from edge_emission_policy [OF example_counts e l c, of False]
  show ?thesis by (simp add: e l8 s sample_params_def)
qed

subsection \<open>Point transform and handedness\<close>

text \<open>
  C3.  For a lead greater than 0 and a profile point \<open>(x, z)\<close>, \<^verbatim>\<open>cart2polar\<close> returns
  radius \<open>x\<close> and angle \<open>(z / lead) * 2 * pi\<close>, negated exactly when \<open>lefthand\<close> is false;
  \<^verbatim>\<open>transform\<close> returns \<open>(radius * cos angle, radius * sin angle)\<close>; so the angle with
  \<open>lefthand = False\<close> is the negation of the angle with \<open>lefthand = True\<close>.
\<close>

theorem transform_polar:
  assumes "0 < lead"
  shows "cart2polar lead lefthand x z =
           Inr (x, if lefthand then (z / lead) * (2 * pi) else - ((z / lead) * (2 * pi))) \<and>
         transform lead lefthand (Vector x y z) =
           Inr (x * cos (if lefthand then (z / lead) * (2 * pi) else - ((z / lead) * (2 * pi))),
                x * sin (if lefthand then (z / lead) * (2 * pi) else - ((z / lead) * (2 * pi)))) \<and>
         cart2polar lead True x z = Inr (x, (z / lead) * (2 * pi)) \<and>
         cart2polar lead False x z = Inr (x, - ((z / lead) * (2 * pi)))"
  using assms by (simp add: cart2polar_def transform_def get_xz_def Let_def)

theorem transform_polar_witness:
  "cart2polar 8 False 4 4 = Inr (4, - pi) \<and>
   cart2polar 8 True 4 4 = Inr (4, pi) \<and>
   transform 8 False (Vector 4 0 4) = Inr (- 4, 0)"
  using transform_polar [of 8 False 4 4 0] transform_polar [of 8 True 4 4 0]
  by simp

subsection \<open>Validation errors\<close>

text \<open>
  C4.  A profile that is not a Workplane raises a type error whatever the other arguments
  are; a \<^verbatim>\<open>min_vertices\<close> that is not an int, list or tuple raises a type error on any
  Workplane; a list or tuple \<^verbatim>\<open>min_vertices\<close> whose length differs from the number of
  edges of the profile's wire raises a value error.  In each case the workplane kept
  beside the exception is empty: no sketch call has been made.
\<close>

theorem validation_errors:
  "profile_to_cross_section ar (NotWorkplane r) lefthand min_vertices =
     Inl (TypeError (''profile '' @ r @ '' must be a '' @ Workplane_cls @ '' instance''), []) \<and>
   profile_to_cross_section ar (Workplane val) lefthand (MV_other r') =
     Inl (TypeError (''min_vertices '' @ r' @ '' must be an int, list, or tuple''), []) \<and>
   (length cs \<noteq> length (Edges w) \<longrightarrow>
      profile_to_cross_section ar (Workplane (Wire w)) lefthand (MV_list cs) = Inl (ValueError [], []) \<and>
      profile_to_cross_section ar (Workplane (Wire w)) lefthand (MV_tuple cs) = Inl (ValueError [], []))"
  by (simp add: profile_to_cross_section_def vertices_count_def)

theorem validation_errors_witness:
  "profile_to_cross_section exact_arith (NotWorkplane ''None'') False (MV_int 20) =
     Inl (TypeError (''profile None must be a '' @ Workplane_cls @ '' instance''), []) \<and>
   profile_to_cross_section exact_arith (Workplane (Wire example_wire)) False (MV_other ''2.5'') =
     Inl (TypeError ''min_vertices 2.5 must be an int, list, or tuple'', []) \<and>
   profile_to_cross_section exact_arith (Workplane (Wire example_wire)) False (MV_list [4, 4]) =
     Inl (ValueError [], []) \<and>
   profile_to_cross_section exact_arith (Workplane (Wire example_wire)) False (MV_tuple [4, 4]) =
     Inl (ValueError [], [])"
  using validation_errors [of exact_arith "''None''" False "MV_int 20" "Wire example_wire" "''2.5''"
      "[4, 4]" example_wire]
  by (simp add: example_wire_def)

subsection \<open>Division by a zero vertex count\<close>

text \<open>
  C10 (as amended).  On a profile that passes validation, has at least one edge and a
  non-zero lead, the function raises \<open>ZeroDivisionError\<close> exactly when some edge of the
  spline kind has vertex count 0: it avoids the division by zero when every such count
  is not zero, so when every one is at least 1, and also when one is negative.  At the
  first edge of the spline kind with count 0, \<^verbatim>\<open>apply_spline\<close> raises from its
  division, whatever the edge's curve is: the workplane then holds the move and the
  shapes of the earlier edges only, and no point of that edge has been sampled.
\<close>

theorem zero_vertex_count_divides:
  assumes vc: "vertices_count ar w min_vertices = Inr vc"
    and edges: "Edges w = e0 # es"
    and lead: "profile_lead w \<noteq> 0"
  shows "((\<exists>wp. profile_to_cross_section ar (Workplane (Wire w)) lefthand min_vertices =
                  Inl (ZeroDivisionError, wp)) \<longleftrightarrow>
          (\<exists>i < length (Edges w). spline_edge (Edges w ! i) \<and> vc ! i = 0)) \<and>
         (\<forall>i < length (Edges w).
            spline_edge (Edges w ! i) \<and> vc ! i = 0 \<and>
            (\<forall>j < i. spline_edge (Edges w ! j) \<longrightarrow> vc ! j \<noteq> 0) \<longrightarrow>
            apply_spline (profile_lead w) lefthand wp0 (Edges w ! i) (vc ! i) = Inl ZeroDivisionError \<and>
            profile_to_cross_section ar (Workplane (Wire w)) lefthand min_vertices =
              Inl (ZeroDivisionError,
                   MoveTo (fst (polar_point (profile_lead w) lefthand (startPoint e0)))
                          (snd (polar_point (profile_lead w) lefthand (startPoint e0)))
                   # map2 (emitted_shape (profile_lead w) lefthand) (take i (Edges w)) (take i vc)))"
proof -
  let ?P = "\<lambda>ec. \<not> zero_spline ec"
  let ?z = "zip (Edges w) vc"
  let ?lhs = "profile_to_cross_section ar (Workplane (Wire w)) lefthand min_vertices"
  have len: "length vc = length (Edges w)" using vc by (rule vertices_count_length)
  then have lz: "length ?z = length (Edges w)" by simp
  note ch = profile_to_cross_section_char[OF vc edges lead, of lefthand]
  have nth: "zero_spline (?z ! i) \<longleftrightarrow> spline_edge (Edges w ! i) \<and> vc ! i = 0"
    if "i < length (Edges w)" for i
    using that len by (simp add: zero_spline_def)
  have A: "(\<exists>wp. ?lhs = Inl (ZeroDivisionError, wp)) \<longleftrightarrow>
           (\<exists>i < length (Edges w). spline_edge (Edges w ! i) \<and> vc ! i = 0)"
  proof
    assume "\<exists>wp. ?lhs = Inl (ZeroDivisionError, wp)"
    then have "length (takeWhile ?P ?z) \<noteq> length (Edges w)"
      unfolding ch Let_def by (auto split: if_splits)
    then have "length (takeWhile ?P ?z) \<noteq> length ?z" unfolding lz .
    then have "takeWhile ?P ?z \<noteq> ?z" by (metis (no_types))
    then obtain ec where "ec \<in> set ?z" "zero_spline ec"
      by (auto simp: takeWhile_eq_all_conv)
    then obtain i where "i < length ?z" "zero_spline (?z ! i)"
      by (auto simp: in_set_conv_nth)
    then show "\<exists>i < length (Edges w). spline_edge (Edges w ! i) \<and> vc ! i = 0"
      using nth lz by auto
  next
    assume "\<exists>i < length (Edges w). spline_edge (Edges w ! i) \<and> vc ! i = 0"
    then obtain i where i: "i < length (Edges w)" "zero_spline (?z ! i)" using nth by auto
    then have "i < length ?z" by (simp only: lz)
    then have "?z ! i \<in> set ?z" by (rule nth_mem)
    with i have "takeWhile ?P ?z \<noteq> ?z" by (auto simp: takeWhile_eq_all_conv)
    then have "length (takeWhile ?P ?z) \<noteq> length ?z"
      by (metis takeWhile_eq_take take_all order_refl)
    then show "\<exists>wp. ?lhs = Inl (ZeroDivisionError, wp)"
      unfolding ch Let_def using lz by simp
  qed
  have B: "apply_spline (profile_lead w) lefthand wp0 (Edges w ! i) (vc ! i) = Inl ZeroDivisionError \<and>
           ?lhs = Inl (ZeroDivisionError,
                   MoveTo (fst (polar_point (profile_lead w) lefthand (startPoint e0)))
                          (snd (polar_point (profile_lead w) lefthand (startPoint e0)))
                   # map2 (emitted_shape (profile_lead w) lefthand) (take i (Edges w)) (take i vc))"
    if i: "i < length (Edges w)" and z: "spline_edge (Edges w ! i)" "vc ! i = 0"
      and first: "\<forall>j < i. spline_edge (Edges w ! j) \<longrightarrow> vc ! j \<noteq> 0" for i
  proof -
    have tw: "takeWhile ?P ?z = take i ?z"
    proof (rule takeWhile_eq_take_P_nth)
      fix j assume "j < i" "j < length ?z"
      then show "\<not> zero_spline (?z ! j)" using first i nth[of j] by simp
    next
      show "\<not> \<not> zero_spline (?z ! i)" using z nth[OF i] by simp
    qed
    have l: "length (take i ?z) \<noteq> length (Edges w)" using i lz by simp
    have m: "map (\<lambda>ec. emitted_shape (profile_lead w) lefthand (fst ec) (snd ec)) (take i ?z) =
             map2 (emitted_shape (profile_lead w) lefthand) (take i (Edges w)) (take i vc)"
      by (simp add: case_prod_beta take_zip)
    show ?thesis
      unfolding ch tw Let_def using l m z by (simp add: apply_spline_zero)
  qed
  show ?thesis using A B by blast
qed

theorem zero_vertex_count_divides_witness:
  "apply_spline 8 False [] (line_edge (Vector 1 0 0) (Vector 4 0 4) 5) 0 = Inl ZeroDivisionError \<and>
   profile_to_cross_section exact_arith (Workplane (Wire example_wire)) False (MV_list [0, 7, 5]) =
     Inl (ZeroDivisionError,
          [MoveTo (fst (polar_point 8 False (Vector 1 0 0))) (snd (polar_point 8 False (Vector 1 0 0)))])"
proof -
  have e: "Edges example_wire =
             line_edge (Vector 1 0 0) (Vector 4 0 4) 5 #
             [line_edge (Vector 4 0 4) (Vector 4 0 8) 4, line_edge (Vector 4 0 8) (Vector 1 0 8) 3]"
    by (simp add: example_wire_def)
  have vc: "vertices_count exact_arith example_wire (MV_list [0, 7, 5]) = Inr [0, 7, 5]"
    by (simp add: vertices_count_def e)
  have l: "profile_lead example_wire \<noteq> 0" by (simp add: profile_lead_def example_wire_def)
  have l8: "profile_lead example_wire = 8" by (simp add: profile_lead_def example_wire_def)
  have s: "startPoint (line_edge (Vector 1 0 0) (Vector 4 0 4) 5) = Vector 1 0 0"
    by (simp add: line_edge_def)
  have z: "spline_edge (Edges example_wire ! 0) \<and> [0, 7, 5 :: int] ! 0 = 0 \<and>
           (\<forall>j<0. spline_edge (Edges example_wire ! j) \<longrightarrow> [0, 7, 5 :: int] ! j \<noteq> 0)"
    by (simp add: e example_kinds)
  have i: "0 < length (Edges example_wire)" by (simp add: e)
  from zero_vertex_count_divides [OF vc e l, of False "[]", THEN conjunct2, rule_format, OF i z]
show ?thesis by (simp add: e l8 s example_kinds)
qed

text \<open>
  The claim as stated says that the division by zero is avoided only when every count of
  a spline edge is at least 1.  With the explicit list \<^verbatim>\<open>[-1, 7, 5]\<close> on the example
  wire, whose first edge is of the spline kind, nothing is divided by zero:
  \<^verbatim>\<open>iter_dist\<close> is the length over \<open>-1\<close>, \<^verbatim>\<open>range(-1)\<close> is empty, and the spline call is
  made on no points.  (What the sketch library does with a spline on no points is not a
  division by zero.)
\<close>

theorem zero_vertex_count_divides_counterexample:
  "spline_edge (line_edge (Vector 1 0 0) (Vector 4 0 4) 5) \<and>
   \<not> (1::int) \<le> - 1 \<and>
   apply_spline 8 False [] (line_edge (Vector 1 0 0) (Vector 4 0 4) 5) (- 1) = Inr [Spline []] \<and>
   profile_to_cross_section exact_arith (Workplane (Wire example_wire)) False (MV_list [- 1, 7, 5]) =
     Inr [MoveTo (fst (polar_point 8 False (Vector 1 0 0))) (snd (polar_point 8 False (Vector 1 0 0))),
          Spline [],
          emitted_shape 8 False (line_edge (Vector 4 0 4) (Vector 4 0 8) 4) 7,
          emitted_shape 8 False (line_edge (Vector 4 0 8) (Vector 1 0 8) 3) 5,
          Close]"
proof -
  have e: "Edges example_wire =
             line_edge (Vector 1 0 0) (Vector 4 0 4) 5 #
             [line_edge (Vector 4 0 4) (Vector 4 0 8) 4, line_edge (Vector 4 0 8) (Vector 1 0 8) 3]"
    by (simp add: example_wire_def)
  have vc: "vertices_count exact_arith example_wire (MV_list [- 1, 7, 5]) = Inr [- 1, 7, 5]"
    by (simp add: vertices_count_def e)
  have l: "profile_lead example_wire \<noteq> 0" by (simp add: profile_lead_def example_wire_def)
  have l8: "profile_lead example_wire = 8" by (simp add: profile_lead_def example_wire_def)
  have s: "startPoint (line_edge (Vector 1 0 0) (Vector 4 0 4) 5) = Vector 1 0 0"
    by (simp add: line_edge_def)
  have sp: "emitted_shape 8 False (line_edge (Vector 1 0 0) (Vector 4 0 4) 5) (- 1) = Spline []"
    using example_kinds(1) by (simp add: emitted_shape_def spline_edge_def sample_params_def)
  have a: "apply_spline 8 False [] (line_edge (Vector 1 0 0) (Vector 4 0 4) 5) (- 1) = Inr [Spline []]"
    by (simp add: apply_spline_def)
  have "profile_to_cross_section exact_arith (Workplane (Wire example_wire)) False (MV_list [- 1, 7, 5]) =
     Inr [MoveTo (fst (polar_point 8 False (Vector 1 0 0))) (snd (polar_point 8 False (Vector 1 0 0))),
          Spline [],
          emitted_shape 8 False (line_edge (Vector 4 0 4) (Vector 4 0 8) 4) 7,
          emitted_shape 8 False (line_edge (Vector 4 0 8) (Vector 1 0 8) 3) 5,
          Close]"
    unfolding profile_to_cross_section_char [OF vc e l]
    by (simp add: e l8 s sp zero_spline_def Let_def)
  with a example_kinds(1) show ?thesis by simp
qed

section \<open>The thread solid\<close>

subsection \<open>The example profile through the pipeline\<close>

lemma example_edges:
  "Edges example_wire =
     line_edge (Vector 1 0 0) (Vector 4 0 4) 5 #
     [line_edge (Vector 4 0 4) (Vector 4 0 8) 4, line_edge (Vector 4 0 8) (Vector 1 0 8) 3]"
  by (simp add: example_wire_def)

lemma example_lead: "profile_lead example_wire = 8"
  by (simp add: profile_lead_def example_wire_def)

lemma example_profile_cross_section:
  "profile_to_cross_section exact_arith (Workplane (Wire example_wire)) False (MV_int 20) =
     Inr example_cross_section"
proof -
  have l: "profile_lead example_wire \<noteq> 0" by (simp add: example_lead)
  have s: "startPoint (line_edge (Vector 1 0 0) (Vector 4 0 4) 5) = Vector 1 0 0"
    by (simp add: line_edge_def)
  show ?thesis
    unfolding profile_to_cross_section_char [OF example_counts example_edges l]
    by (simp add: example_edges example_lead s zero_spline_def example_cross_section_def Let_def)
qed

subsection \<open>\<^verbatim>\<open>make\<close> on a profile that converts\<close>

lemma make_char:
  assumes bp: "build_profile self = Inr (Workplane (Wire w))"
    and cs: "profile_to_cross_section ar (Workplane (Wire w)) (t_lefthand self) (MV_int 20) = Inr cs"
  shows "make ar isValid build_profile self =
           (if isValid (Swept cs (Helix (profile_lead w) (t_length self) 1 0 (t_lefthand self)) True)
            then Inr (Swept cs (Helix (profile_lead w) (t_length self) 1 0 (t_lefthand self)) True)
            else Inr (Solid (Sewn
                   (Swept cs (Helix (profile_lead w) (t_length self) 1 0 (t_lefthand self)) True))))"
  by (simp add: make_def bp cs helical_path_def profile_lead_def Let_def)

lemma make_returns:
  assumes "make ar isValid build_profile self = Inr s"
  shows "\<exists>w cs. build_profile self = Inr (Workplane (Wire w)) \<and>
           profile_to_cross_section ar (Workplane (Wire w)) (t_lefthand self) (MV_int 20) = Inr cs"
  using assms
  by (auto simp: make_def split: sum.splits profile_obj.splits wp_val.splits prod.splits)

text \<open>
  C8.  Whenever the profile built by the thread is a Workplane holding a wire that
  \<^verbatim>\<open>profile_to_cross_section\<close> converts, \<open>make\<close> returns a shape swept along the helix
  whose pitch is the z-extent \<open>zmax - zmin\<close> of the wire's bounding box (the lead that
  \<^verbatim>\<open>profile_to_cross_section\<close> computes), whose length and handedness are the thread's,
  whose angle is 0 and whose radius is 1, whatever \<open>t_radius\<close> is; and \<open>make\<close> returns in
  no other case.
\<close>

theorem make_helical_path:
  "(\<forall>w cs. build_profile self = Inr (Workplane (Wire w)) \<and>
       profile_to_cross_section ar (Workplane (Wire w)) (t_lefthand self) (MV_int 20) = Inr cs \<longrightarrow>
       (\<exists>s. make ar isValid build_profile self = Inr s \<and>
            sweep_cross_section s = cs \<and>
            sweep_path s = Helix (bb_zmax w - bb_zmin w) (t_length self) 1 0 (t_lefthand self) \<and>
            helix_pitch (sweep_path s) = profile_lead w)) \<and>
   (\<forall>s. make ar isValid build_profile self = Inr s \<longrightarrow>
       (\<exists>w. build_profile self = Inr (Workplane (Wire w)) \<and>
            sweep_path s = Helix (profile_lead w) (t_length self) 1 0 (t_lefthand self)))"
proof (intro conjI allI impI)
  fix w cs
  assume "build_profile self = Inr (Workplane (Wire w)) \<and>
       profile_to_cross_section ar (Workplane (Wire w)) (t_lefthand self) (MV_int 20) = Inr cs"
  then show "\<exists>s. make ar isValid build_profile self = Inr s \<and>
            sweep_cross_section s = cs \<and>
            sweep_path s = Helix (bb_zmax w - bb_zmin w) (t_length self) 1 0 (t_lefthand self) \<and>
            helix_pitch (sweep_path s) = profile_lead w"
    by (simp add: make_char profile_lead_def)
next
  fix s
  assume m: "make ar isValid build_profile self = Inr s"
  from make_returns [OF m] obtain w cs where
    bp: "build_profile self = Inr (Workplane (Wire w))" and
    cs: "profile_to_cross_section ar (Workplane (Wire w)) (t_lefthand self) (MV_int 20) = Inr cs"
    by blast
  from m have "sweep_path s = Helix (profile_lead w) (t_length self) 1 0 (t_lefthand self)"
    unfolding make_char [where build_profile = build_profile and self = self, OF bp cs]
    by (auto split: if_splits)
  with bp show "\<exists>w. build_profile self = Inr (Workplane (Wire w)) \<and>
            sweep_path s = Helix (profile_lead w) (t_length self) 1 0 (t_lefthand self)"
    by blast
qed

theorem make_helical_path_witness:
  "make exact_arith (\<lambda>s. True) example_build_profile default_thread =
     Inr (Swept example_cross_section (Helix 8 10 1 0 False) True) \<and>
   t_radius default_thread = 3"
proof -
  have bp: "example_build_profile default_thread = Inr (Workplane (Wire example_wire))"
    by (simp add: example_build_profile_def)
  have lh: "t_lefthand default_thread = False" "t_length default_thread = 10"
    by (simp_all add: default_thread_def)
  have cs: "profile_to_cross_section exact_arith (Workplane (Wire example_wire))
              (t_lefthand default_thread) (MV_int 20) = Inr example_cross_section"
    by (simp add: lh example_profile_cross_section)
  from make_helical_path [of example_build_profile default_thread exact_arith "\<lambda>s. True",
      THEN conjunct1, rule_format, OF conjI, OF bp cs]
  obtain s where s: "make exact_arith (\<lambda>s. True) example_build_profile default_thread = Inr s"
    "sweep_cross_section s = example_cross_section"
    "sweep_path s = Helix (bb_zmax example_wire - bb_zmin example_wire) 10 1 0 False"
    by (auto simp: lh)
  have "make exact_arith (\<lambda>s. True) example_build_profile default_thread =
          Inr (Swept example_cross_section (Helix 8 10 1 0 False) True)"
    by (simp add: make_char [where build_profile = example_build_profile and self = default_thread,
          OF bp cs] lh example_lead)
  then show ?thesis using s by (simp add: default_thread_def)
qed

text \<open>
  C9.  On such a profile: when the kernel finds the swept shape valid, \<open>make\<close> returns
  it unchanged; when it does not, \<open>make\<close> sews the shape, builds a solid from the result
  and returns that solid.  No validity check follows the repair, so the solid is
  returned whether or not the kernel would find it valid, and \<open>make\<close> raises nothing.
  (The kernel's own operations are taken to return.)
\<close>

theorem make_repairs_and_returns:
  assumes bp: "build_profile self = Inr (Workplane (Wire w))"
    and cs: "profile_to_cross_section ar (Workplane (Wire w)) (t_lefthand self) (MV_int 20) = Inr cs"
  shows "(isValid (Swept cs (helical_path (profile_lead w) (t_length self) 1 0 (t_lefthand self)) True) \<longrightarrow>
            make ar isValid build_profile self =
              Inr (Swept cs (helical_path (profile_lead w) (t_length self) 1 0 (t_lefthand self)) True)) \<and>
         (\<not> isValid (Swept cs (helical_path (profile_lead w) (t_length self) 1 0 (t_lefthand self)) True) \<longrightarrow>
            make ar isValid build_profile self =
              Inr (Solid (Sewn
                (Swept cs (helical_path (profile_lead w) (t_length self) 1 0 (t_lefthand self)) True))))"
  by (simp add: make_char [where build_profile = build_profile and self = self, OF bp cs]
        helical_path_def)

theorem make_repairs_and_returns_witness:
  "make exact_arith (\<lambda>s. False) example_build_profile default_thread =
     Inr (Solid (Sewn (Swept example_cross_section (Helix 8 10 1 0 False) True))) \<and>
   make exact_arith (\<lambda>s. case s of Swept cs p f \<Rightarrow> True | _ \<Rightarrow> False) example_build_profile default_thread =
     Inr (Swept example_cross_section (Helix 8 10 1 0 False) True)"
proof -
  have bp: "example_build_profile default_thread = Inr (Workplane (Wire example_wire))"
    by (simp add: example_build_profile_def)
  have lh: "t_lefthand default_thread = False" "t_length default_thread = 10"
    by (simp_all add: default_thread_def)
  have cs: "profile_to_cross_section exact_arith (Workplane (Wire example_wire))
              (t_lefthand default_thread) (MV_int 20) = Inr example_cross_section"
    by (simp add: lh example_profile_cross_section)
  from make_repairs_and_returns [where build_profile = example_build_profile
         and self = default_thread and isValid = "\<lambda>s. False", OF bp cs]
       make_repairs_and_returns [where build_profile = example_build_profile
         and self = default_thread
         and isValid = "\<lambda>s. case s of Swept cs p f \<Rightarrow> True | _ \<Rightarrow> False", OF bp cs]
  show ?thesis by (simp add: lh example_lead helical_path_def)
qed

subsection \<open>Keyword arguments of the constructor\<close>













section \<open>Composition of coordinate systems\<close>

subsection \<open>Vector identities\<close>

lemma vector_eq_iff: "a = b \<longleftrightarrow> vx a = vx b \<and> vy a = vy b \<and> vz a = vz b"
  by (cases a; cases b) simp

lemma vec_sel [simp]:
  "vx (vec_add a b) = vx a + vx b" "vy (vec_add a b) = vy a + vy b" "vz (vec_add a b) = vz a + vz b"
  "vx (vec_sub a b) = vx a - vx b" "vy (vec_sub a b) = vy a - vy b" "vz (vec_sub a b) = vz a - vz b"
  "vx (vec_scale c a) = c * vx a" "vy (vec_scale c a) = c * vy a" "vz (vec_scale c a) = c * vz a"
  "vx (cross a b) = vy a * vz b - vz a * vy b"
  "vy (cross a b) = vz a * vx b - vx a * vz b"
  "vz (cross a b) = vx a * vy b - vy a * vx b"
  by (simp_all add: vec_add_def vec_sub_def vec_scale_def cross_def)

lemma dot_cross_self [simp]: "dot a (cross a b) = 0" "dot b (cross a b) = 0"
  by (simp_all add: dot_def algebra_simps)

lemma lagrange: "dot (cross a b) (cross a b) = dot a a * dot b b - dot a b * dot a b"
  by (simp add: dot_def algebra_simps)

lemma cross_cross_left: "cross (cross a b) c = vec_sub (vec_scale (dot a c) b) (vec_scale (dot b c) a)"
  by (simp add: vector_eq_iff dot_def algebra_simps)

lemma cross_cross_right: "cross a (cross b c) = vec_sub (vec_scale (dot a c) b) (vec_scale (dot a b) c)"
  by (simp add: vector_eq_iff dot_def algebra_simps)

lemma normalized_unit: "dot a a = 1 \<Longrightarrow> normalized a = a"
  by (simp add: normalized_def vector_eq_iff)

subsection \<open>The basis of an orthonormal frame\<close>

lemma frame_basis:
  assumes "orthonormal a"
  shows "dot (yDir a) (yDir a) = 1" "dot (xDir a) (yDir a) = 0" "dot (yDir a) (zDir a) = 0"
    "cross (xDir a) (yDir a) = zDir a" "cross (yDir a) (zDir a) = xDir a"
proof -
  from assms have x: "dot (xDir a) (xDir a) = 1" and z: "dot (zDir a) (zDir a) = 1"
    and xz: "dot (xDir a) (zDir a) = 0" by (simp_all add: orthonormal_def)
  have zx: "dot (zDir a) (xDir a) = 0" using xz by (simp add: dot_def mult.commute)
  show "dot (yDir a) (yDir a) = 1" by (simp add: yDir_def lagrange x z zx)
  show "dot (xDir a) (yDir a) = 0" by (simp add: yDir_def)
  show "dot (yDir a) (zDir a) = 0" using dot_cross_self(1)[of "zDir a" "xDir a"]
    by (simp add: yDir_def dot_def mult.commute)
  show "cross (xDir a) (yDir a) = zDir a"
    by (simp add: yDir_def cross_cross_right x xz zx vector_eq_iff)
  show "cross (yDir a) (zDir a) = xDir a"
    by (simp add: yDir_def cross_cross_left z zx xz vector_eq_iff)
qed

subsection \<open>The linear part of a frame's transform\<close>

lemma dot_linear_part:
  "dot (linear_part m u) (linear_part m w) =
     vx u * vx w * dot (col_x m) (col_x m) + vy u * vy w * dot (col_y m) (col_y m) +
     vz u * vz w * dot (col_z m) (col_z m) +
     (vx u * vy w + vy u * vx w) * dot (col_x m) (col_y m) +
     (vx u * vz w + vz u * vx w) * dot (col_x m) (col_z m) +
     (vy u * vz w + vz u * vy w) * dot (col_y m) (col_z m)"
  by (simp add: linear_part_def dot_def algebra_simps)

lemma cross_linear_part:
  "cross (linear_part m u) (linear_part m w) =
     vec_add (vec_add (vec_scale (vy u * vz w - vz u * vy w) (cross (col_y m) (col_z m)))
                      (vec_scale (vz u * vx w - vx u * vz w) (cross (col_z m) (col_x m))))
             (vec_scale (vx u * vy w - vy u * vx w) (cross (col_x m) (col_y m)))"
  by (simp add: linear_part_def vector_eq_iff algebra_simps)

lemma transform_columns [simp]:
  "col_x (local_to_world_transform a) = xDir a" "col_y (local_to_world_transform a) = yDir a"
  "col_z (local_to_world_transform a) = zDir a" "col_t (local_to_world_transform a) = origin a"
  by (simp_all add: local_to_world_transform_def)

lemma rotate_dot:
  assumes "orthonormal a"
  shows "dot (linear_part (local_to_world_transform a) u) (linear_part (local_to_world_transform a) w) =
         dot u w"
proof -
  from assms have x: "dot (xDir a) (xDir a) = 1" and z: "dot (zDir a) (zDir a) = 1"
    and xz: "dot (xDir a) (zDir a) = 0" by (simp_all add: orthonormal_def)
  note b = frame_basis [OF assms]
  show ?thesis
    unfolding dot_linear_part transform_columns x z xz b(1) b(2) b(3)
    by (simp add: dot_def)
qed

lemma rotate_cross:
  assumes "orthonormal a"
  shows "cross (linear_part (local_to_world_transform a) u) (linear_part (local_to_world_transform a) w) =
         linear_part (local_to_world_transform a) (cross u w)"
proof -
  note b = frame_basis [OF assms]
  have y: "cross (zDir a) (xDir a) = yDir a" by (simp add: yDir_def)
  show ?thesis
    unfolding cross_linear_part transform_columns b(4) b(5) y
    by (simp add: linear_part_def vector_eq_iff)
qed

subsection \<open>Composition of frames\<close>

lemma from_transform_columns:
  "from_transform m = CoordSystem (col_t m) (col_x m) (col_z m)"
proof -
  have "multiply_vector m (Vector 0 0 0) = col_t m"
    "vec_sub (multiply_vector m (Vector 1 0 0)) (multiply_vector m (Vector 0 0 0)) = col_x m"
    "vec_sub (multiply_vector m (Vector 0 0 1)) (multiply_vector m (Vector 0 0 0)) = col_z m"
    by (simp_all add: multiply_vector_def linear_part_def vector_eq_iff)
  then show ?thesis by (simp add: from_transform_def Let_def)
qed

lemma from_transform_inverse:
  assumes "orthonormal a"
  shows "from_transform (local_to_world_transform a) = a"
  using assms
  by (simp add: from_transform_columns CoordSystem_def orthonormal_def normalized_unit)

text \<open>The frame that \<open>a + b\<close> returns, for orthonormal frames.\<close>

lemma add_frames:
  assumes a: "orthonormal a" and b: "orthonormal b"
  shows "from_transform (multiply (local_to_world_transform a) (local_to_world_transform b)) =
           \<lparr>origin = multiply_vector (local_to_world_transform a) (origin b),
            xDir = linear_part (local_to_world_transform a) (xDir b),
            zDir = linear_part (local_to_world_transform a) (zDir b)\<rparr>"
proof -
  from b have x: "dot (xDir b) (xDir b) = 1" and z: "dot (zDir b) (zDir b) = 1"
    by (simp_all add: orthonormal_def)
  have "normalized (linear_part (local_to_world_transform a) (xDir b)) =
          linear_part (local_to_world_transform a) (xDir b)"
    by (rule normalized_unit) (simp add: rotate_dot [OF a] x)
  moreover have "normalized (linear_part (local_to_world_transform a) (zDir b)) =
          linear_part (local_to_world_transform a) (zDir b)"
    by (rule normalized_unit) (simp add: rotate_dot [OF a] z)
  ultimately show ?thesis
    by (simp add: from_transform_columns CoordSystem_def multiply_def)
qed

lemma add_frames_orthonormal:
  assumes a: "orthonormal a" and b: "orthonormal b"
  shows "orthonormal (from_transform (multiply (local_to_world_transform a) (local_to_world_transform b)))"
  using b unfolding add_frames [OF a b] by (simp add: orthonormal_def rotate_dot [OF a])

lemma add_frames_transform:
  assumes a: "orthonormal a" and b: "orthonormal b"
  shows "local_to_world_transform
           (from_transform (multiply (local_to_world_transform a) (local_to_world_transform b))) =
         multiply (local_to_world_transform a) (local_to_world_transform b)"
proof -
  have r: "local_to_world_transform \<lparr>origin = p, xDir = x, zDir = z\<rparr> = Matrix x (cross z x) z p"
    for p x z by (simp add: local_to_world_transform_def yDir_def)
  have y: "cross (zDir b) (xDir b) = yDir b" by (simp add: yDir_def)
  show ?thesis
    unfolding add_frames [OF a b] r rotate_cross [OF a] y
    by (simp add: multiply_def)
qed

lemma linear_part_multiply:
  "linear_part (multiply m n) p = linear_part m (linear_part n p)"
  by (simp add: multiply_def linear_part_def vector_eq_iff algebra_simps)

lemma multiply_vector_multiply:
  "multiply_vector (multiply m n) p = multiply_vector m (multiply_vector n p)"
  by (simp add: multiply_def multiply_vector_def linear_part_def vector_eq_iff algebra_simps)

lemma multiply_assoc: "multiply (multiply m n) p = multiply m (multiply n p)"
  by (cases m; cases n; cases p)
    (simp add: multiply_def multiply_vector_def linear_part_def vector_eq_iff algebra_simps)

lemma identity_transform:
  "local_to_world_transform identity_frame =
     Matrix (Vector 1 0 0) (Vector 0 1 0) (Vector 0 0 1) (Vector 0 0 0)"
  by (simp add: local_to_world_transform_def identity_frame_def yDir_def cross_def)

lemma multiply_identity:
  "multiply m (local_to_world_transform identity_frame) = m"
  "multiply (local_to_world_transform identity_frame) m = m"
  by (cases m; simp add: identity_transform multiply_def multiply_vector_def linear_part_def
        vector_eq_iff)+

text \<open>
  C7.  For orthonormal frames (the invariant of a frame) and over the reals, where the
  equalities are exact: \<open>a + identity\<close> and \<open>identity + a\<close> are \<open>a\<close>, for the identity
  frame with origin zero and the standard axes; and \<open>(a + b) + c\<close> is \<open>a + (b + c)\<close>.
\<close>

theorem add_identity_and_associativity:
  assumes a: "orthonormal a" and b: "orthonormal b" and c: "orthonormal c"
  shows "CoordSystem_add v cls a (CoordSystem_obj identity_frame) = Inr a \<and>
         CoordSystem_add v cls identity_frame (CoordSystem_obj a) = Inr a \<and>
         (\<exists>ab bc. CoordSystem_add v cls a (CoordSystem_obj b) = Inr ab \<and>
                  CoordSystem_add v cls b (CoordSystem_obj c) = Inr bc \<and>
                  CoordSystem_add v cls ab (CoordSystem_obj c) =
                    CoordSystem_add v cls a (CoordSystem_obj bc))"
proof -
  let ?T = local_to_world_transform
  have 1: "CoordSystem_add v cls a (CoordSystem_obj identity_frame) = Inr a"
    by (simp add: CoordSystem_add_def multiply_identity from_transform_inverse [OF a])
  have 2: "CoordSystem_add v cls identity_frame (CoordSystem_obj a) = Inr a"
    by (simp add: CoordSystem_add_def multiply_identity from_transform_inverse [OF a])
  have ab: "?T (from_transform (multiply (?T a) (?T b))) = multiply (?T a) (?T b)"
    using a b by (rule add_frames_transform)
  have bc: "?T (from_transform (multiply (?T b) (?T c))) = multiply (?T b) (?T c)"
    using b c by (rule add_frames_transform)
  have 3: "CoordSystem_add v cls (from_transform (multiply (?T a) (?T b))) (CoordSystem_obj c) =
           CoordSystem_add v cls a (CoordSystem_obj (from_transform (multiply (?T b) (?T c))))"
    by (simp add: CoordSystem_add_def ab bc multiply_assoc)
  have "CoordSystem_add v cls a (CoordSystem_obj b) = Inr (from_transform (multiply (?T a) (?T b)))"
       "CoordSystem_add v cls b (CoordSystem_obj c) = Inr (from_transform (multiply (?T b) (?T c)))"
    by (simp_all add: CoordSystem_add_def)
  with 1 2 3 show ?thesis by blast
qed

theorem add_identity_and_associativity_witness:
  "CoordSystem_add Python2 CoordSystem_cls shifted_frame (CoordSystem_obj identity_frame) =
     Inr shifted_frame \<and>
   CoordSystem_add Python2 CoordSystem_cls identity_frame (CoordSystem_obj shifted_frame) =
     Inr shifted_frame \<and>
   (\<exists>ab bc. CoordSystem_add Python2 CoordSystem_cls shifted_frame (CoordSystem_obj turned_frame) = Inr ab \<and>
      CoordSystem_add Python2 CoordSystem_cls turned_frame (CoordSystem_obj shifted_frame) = Inr bc \<and>
      CoordSystem_add Python2 CoordSystem_cls ab (CoordSystem_obj shifted_frame) =
        CoordSystem_add Python2 CoordSystem_cls shifted_frame (CoordSystem_obj bc))"
proof -
  have s: "orthonormal shifted_frame" by (simp add: orthonormal_def shifted_frame_def dot_def)
  have t: "orthonormal turned_frame" by (simp add: orthonormal_def turned_frame_def dot_def)
  show ?thesis using add_identity_and_associativity [OF s t s] .
qed

subsection \<open>Adding an object that is no coordinate system\<close>

text \<open>
  C6 (the code departs from the claim).  For an operand of any other class the method
  does not raise the type error it writes, whose message would name both classes:
  formatting the message raises first, a value error under CPython 2.7 and a type error
  with the interpreter's own message under CPython 3.
\<close>

theorem add_non_frame_raises:
  "CoordSystem_add Python2 cls a (Other_obj other_cls) =
     Inl (ValueError (''Unknown format code '' @ [CHR 0x27] @ ''r'' @ [CHR 0x27] @
            '' for object of type '' @ [CHR 0x27] @ ''str'' @ [CHR 0x27])) \<and>
   CoordSystem_add Python3 cls a (Other_obj other_cls) =
     Inl (TypeError ''unsupported format string passed to type.__format__'') \<and>
   CoordSystem_add v cls a (Other_obj other_cls) \<noteq>
     Inl (TypeError (''adding a '' @ other_cls @ '' to a '' @ cls @ '' is not supported''))"
  by (cases v) (simp_all add: CoordSystem_add_def format_class_r_def)

end
